theory Spec2Isabelle
  imports Complex_Main
begin

section \<open>Data model\<close>

text \<open>
  The pydantic schemas \<^verbatim>\<open>ProjectBase\<close> and \<^verbatim>\<open>StudentBase\<close> carry the writable
  columns; the ORM classes \<^verbatim>\<open>Project\<close> and \<^verbatim>\<open>Student\<close> have the same columns
  plus the integer primary key \<^verbatim>\<open>id\<close> (named \<open>Project_id\<close> and \<open>Student_id\<close>
  here, since \<open>id\<close> is the identity function of HOL). A nullable column is an
  \<open>option\<close>.
\<close>

text \<open>
  A Python float, as the \<^verbatim>\<open>Float\<close> column \<^verbatim>\<open>cgpa\<close> and the schema field
  \<^verbatim>\<open>Optional[float]\<close> hold it. No arithmetic is done on it: a finite value is only
  stored and handed back, so the finite values are the parameter \<open>'f\<close>. The two
  infinities and NaN are told apart, since the storage and the JSON encoder treat
  them differently from finite values.
\<close>

datatype 'f pyfloat = Finite 'f | Infinity | Minus_Infinity | NaN

record ProjectBase =
  project_name :: string
  project_description :: string

record Project = ProjectBase +
  Project_id :: int

record 'f StudentBase =
  name :: string
  email :: string
  linkedin_profile :: "string option"
  about_you :: "string option"
  specialisation :: "string option"
  cgpa :: "'f pyfloat option"
  favourite_language :: "string option"
  favourite_framework :: "string option"
  is_leader :: bool
  project_id :: "int option"

record 'f Student = "'f StudentBase" +
  Student_id :: int

text \<open>The two tables, rows in storage order (ascending row id).\<close>

record 'f store =
  projects :: "Project list"
  students :: "'f Student list"

definition empty_store :: "'f store" where
  "empty_store = \<lparr>projects = [], students = []\<rparr>"

text \<open>
  What a handler raises: \<^verbatim>\<open>HTTPException(status_code, detail)\<close>, the
  \<^verbatim>\<open>IntegrityError\<close> of a commit that breaks the unique index on
  \<^verbatim>\<open>students.email\<close>, the \<^verbatim>\<open>OverflowError\<close> of a query whose integer parameter
  does not fit the storage's 64-bit integers, the \<^verbatim>\<open>InvalidRequestError\<close> of a
  \<^verbatim>\<open>refresh\<close> that finds no row, and the validation error of a request body that
  lacks a required field.
\<close>

datatype exn =
    HTTPException int string
  | IntegrityError
  | OverflowError
  | InvalidRequestError
  | RequestValidationError

subsection \<open>Request bodies and the schemas' defaults\<close>

text \<open>
  A request body names each field or leaves it out (\<open>None\<close>). A field
  declared \<^verbatim>\<open>Optional[...] = None\<close> may also be sent as null (\<open>Some None\<close>).
\<close>

record ProjectBody =
  json_project_name :: "string option"
  json_project_description :: "string option"

record 'f StudentBody =
  json_name :: "string option"
  json_email :: "string option"
  json_linkedin_profile :: "string option option"
  json_about_you :: "string option option"
  json_specialisation :: "string option option"
  json_cgpa :: "'f pyfloat option option"
  json_favourite_language :: "string option option"
  json_favourite_framework :: "string option option"
  json_is_leader :: "bool option"
  json_project_id :: "int option option"

definition field_default :: "'a \<Rightarrow> 'a option \<Rightarrow> 'a" where
  "field_default d x = (case x of None \<Rightarrow> d | Some v \<Rightarrow> v)"

definition ProjectBase_validate :: "ProjectBody \<Rightarrow> exn + ProjectBase" where
  "ProjectBase_validate b =
     (case json_project_name b of
        None \<Rightarrow> Inl RequestValidationError
      | Some n \<Rightarrow>
          (case json_project_description b of
             None \<Rightarrow> Inl RequestValidationError
           | Some d \<Rightarrow> Inr \<lparr>project_name = n, project_description = d\<rparr>))"

definition StudentBase_validate :: "'f StudentBody \<Rightarrow> exn + 'f StudentBase" where
  "StudentBase_validate b =
     (case json_name b of
        None \<Rightarrow> Inl RequestValidationError
      | Some n \<Rightarrow>
          (case json_email b of
             None \<Rightarrow> Inl RequestValidationError
           | Some e \<Rightarrow>
               Inr \<lparr>name = n, email = e,
                    linkedin_profile = field_default None (json_linkedin_profile b),
                    about_you = field_default None (json_about_you b),
                    specialisation = field_default None (json_specialisation b),
                    cgpa = field_default None (json_cgpa b),
                    favourite_language = field_default None (json_favourite_language b),
                    favourite_framework = field_default None (json_favourite_framework b),
                    is_leader = field_default False (json_is_leader b),
                    project_id = field_default None (json_project_id b)\<rparr>))"

section \<open>Storage: rows, statements, session\<close>

text \<open>
  The storage engine and the ORM are libraries; what follows is the part of their
  behaviour the handlers rely on: lookup by primary key, the key given to an
  inserted row, the unique index on \<^verbatim>\<open>students.email\<close>, and a commit that writes
  all pending changes in one transaction or none. Requests are served one at a
  time.
\<close>

text \<open>
  \<^verbatim>\<open>Project(**project.model_dump())\<close> and \<^verbatim>\<open>Student(**student.model_dump())\<close>: a
  row with the payload's columns; the key is the one the insert assigns.
\<close>

definition Project_of :: "int \<Rightarrow> ProjectBase \<Rightarrow> Project" where
  "Project_of k p =
     \<lparr>project_name = project_name p, project_description = project_description p,
      Project_id = k\<rparr>"

definition Student_of :: "int \<Rightarrow> 'f StudentBase \<Rightarrow> 'f Student" where
  "Student_of k u =
     \<lparr>name = name u, email = email u, linkedin_profile = linkedin_profile u,
      about_you = about_you u, specialisation = specialisation u, cgpa = cgpa u,
      favourite_language = favourite_language u,
      favourite_framework = favourite_framework u, is_leader = is_leader u,
      project_id = project_id u, Student_id = k\<rparr>"

text \<open>
  The key of an inserted row (an integer primary key without autoincrement): one
  more than the largest key in the table, 1 in an empty table.
\<close>

definition next_rowid :: "int list \<Rightarrow> int" where
  "next_rowid ks = (case ks of [] \<Rightarrow> 1 | k # ks' \<Rightarrow> fold max ks' k + 1)"

text \<open>The row with a given primary key, if the table has one.\<close>

definition select_Project :: "'f store \<Rightarrow> int \<Rightarrow> Project option" where
  "select_Project db k = find (\<lambda>p. Project_id p = k) (projects db)"

definition select_Student :: "'f store \<Rightarrow> int \<Rightarrow> 'f Student option" where
  "select_Student db k = find (\<lambda>s. Student_id s = k) (students db)"

text \<open>
  \<^verbatim>\<open>db.query(Project).get(k)\<close> and \<^verbatim>\<open>db.query(Student).get(k)\<close>. The key \<open>k\<close> comes
  from the request and is any Python integer; the storage's integers are signed
  64-bit, and binding a parameter outside that range raises \<^verbatim>\<open>OverflowError\<close>
  before any row is looked up.
\<close>

definition in_int64 :: "int \<Rightarrow> bool" where
  "in_int64 k = (- (2 ^ 63) \<le> k \<and> k < 2 ^ 63)"

definition get_Project :: "'f store \<Rightarrow> int \<Rightarrow> exn + Project option" where
  "get_Project db k = (if in_int64 k then Inr (select_Project db k) else Inl OverflowError)"

definition get_Student :: "'f store \<Rightarrow> int \<Rightarrow> exn + 'f Student option" where
  "get_Student db k = (if in_int64 k then Inr (select_Student db k) else Inl OverflowError)"

text \<open>
  What the \<^verbatim>\<open>REAL\<close> column holds once a float is written: the storage has no NaN
  and writes it as NULL; every other value, the infinities too, is kept.
\<close>

definition sql_real :: "'f pyfloat option \<Rightarrow> 'f pyfloat option" where
  "sql_real x = (case x of Some NaN \<Rightarrow> None | _ \<Rightarrow> x)"

definition stored :: "'f Student \<Rightarrow> 'f Student" where
  "stored r = r\<lparr>cgpa := sql_real (cgpa r)\<rparr>"

text \<open>
  The relationship \<^verbatim>\<open>Project.students\<close>: the students whose foreign key is the
  project's id, loaded when the attribute is first read.
\<close>

definition Project_students :: "'f store \<Rightarrow> Project \<Rightarrow> 'f Student list" where
  "Project_students db p = filter (\<lambda>s. project_id s = Some (Project_id p)) (students db)"

text \<open>
  The changes a session collects until \<^verbatim>\<open>commit\<close> flushes them: objects added,
  attributes set on loaded objects (which the flush writes by primary key) and
  objects marked for deletion.
\<close>

datatype 'f change =
    Add_Project ProjectBase
  | Add_Student "'f StudentBase"
  | Set_Project int ProjectBase
  | Set_Student int "'f StudentBase"
  | Set_Student_project_id int "int option"
  | Delete_Project int
  | Delete_Student int

text \<open>
  One statement of the flush. The result carries the key of the inserted row, if
  the statement is an insert. The unique index on \<^verbatim>\<open>email\<close> fails an insert whose
  email some row has, and an update whose email some other row has. Foreign keys
  are not checked by the storage. The integers a statement binds are keys that a
  query of the same request has bound before, or keys read from the storage.
\<close>

fun execute :: "'f change \<Rightarrow> 'f store \<Rightarrow> exn + ('f store \<times> int option)" where
  "execute (Add_Project p) db =
     (let k = next_rowid (map Project_id (projects db))
      in Inr (db\<lparr>projects := projects db @ [Project_of k p]\<rparr>, Some k))"
| "execute (Add_Student u) db =
     (if email u \<in> set (map email (students db)) then Inl IntegrityError
      else let k = next_rowid (map Student_id (students db))
           in Inr (db\<lparr>students := students db @ [stored (Student_of k u)]\<rparr>, Some k))"
| "execute (Set_Project k p) db =
     Inr (db\<lparr>projects :=
            map (\<lambda>r. if Project_id r = k then Project_of k p else r) (projects db)\<rparr>, None)"
| "execute (Set_Student k u) db =
     (if list_ex (\<lambda>r. Student_id r \<noteq> k \<and> email r = email u) (students db)
      then Inl IntegrityError
      else Inr (db\<lparr>students :=
                  map (\<lambda>r. if Student_id r = k then stored (Student_of k u) else r)
                    (students db)\<rparr>,
                None))"
| "execute (Set_Student_project_id k v) db =
     Inr (db\<lparr>students :=
            map (\<lambda>r. if Student_id r = k then r\<lparr>project_id := v\<rparr> else r) (students db)\<rparr>,
          None)"
| "execute (Delete_Project k) db =
     Inr (db\<lparr>projects := filter (\<lambda>r. Project_id r \<noteq> k) (projects db)\<rparr>, None)"
| "execute (Delete_Student k) db =
     Inr (db\<lparr>students := filter (\<lambda>r. Student_id r \<noteq> k) (students db)\<rparr>, None)"

text \<open>The flush runs the collected changes in order and stops at the first error.\<close>

fun flush :: "'f change list \<Rightarrow> 'f store \<times> int option \<Rightarrow> exn + ('f store \<times> int option)" where
  "flush [] st = Inr st"
| "flush (c # cs) st =
     (case execute c (fst st) of
        Inl e \<Rightarrow> Inl e
      | Inr (db', k) \<Rightarrow> flush cs (db', case k of None \<Rightarrow> snd st | Some _ \<Rightarrow> k))"

text \<open>
  A session: the persisted store it reads, the changes not yet flushed, and the key
  the flush gave to the object added in this session.
\<close>

record 'f session =
  database :: "'f store"
  pending :: "'f change list"
  new_key :: "int option"

definition SessionLocal :: "'f store \<Rightarrow> 'f session" where
  "SessionLocal db = \<lparr>database = db, pending = [], new_key = None\<rparr>"

definition add :: "'f change \<Rightarrow> 'f session \<Rightarrow> 'f session" where
  "add c s = s\<lparr>pending := pending s @ [c]\<rparr>"

text \<open>
  \<^verbatim>\<open>db.commit()\<close>: the flush inside one transaction. When a statement fails the
  transaction is rolled back, so the persisted store stays as it was, and the error
  is raised.
\<close>

definition commit :: "'f session \<Rightarrow> exn + 'f session" where
  "commit s =
     (case flush (pending s) (database s, new_key s) of
        Inl e \<Rightarrow> Inl e
      | Inr (db', k) \<Rightarrow> Inr \<lparr>database = db', pending = [], new_key = k\<rparr>)"


text \<open>
  \<^verbatim>\<open>db.refresh(obj)\<close> reads the object's row again by its primary key, and raises
  when there is none. The key is the one the storage holds for the object.
\<close>

definition refresh_Project :: "'f session \<Rightarrow> int option \<Rightarrow> exn + Project" where
  "refresh_Project s key =
     (case key of
        None \<Rightarrow> Inl InvalidRequestError
      | Some k \<Rightarrow>
          (case select_Project (database s) k of
             None \<Rightarrow> Inl InvalidRequestError
           | Some p \<Rightarrow> Inr p))"

definition refresh_Student :: "'f session \<Rightarrow> int option \<Rightarrow> exn + 'f Student" where
  "refresh_Student s key =
     (case key of
        None \<Rightarrow> Inl InvalidRequestError
      | Some k \<Rightarrow>
          (case select_Student (database s) k of
             None \<Rightarrow> Inl InvalidRequestError
           | Some r \<Rightarrow> Inr r))"

section \<open>Handlers\<close>

text \<open>
  What a handler returns: ORM objects or a dict with a message. A
  \<^verbatim>\<open>Project\<close> object carries its \<^verbatim>\<open>students\<close> only once the relationship has been
  read (\<open>None\<close>: not loaded).
\<close>

datatype 'f content =
    ProjectObj Project "'f Student list option"
  | ProjectObjs "Project list"
  | StudentObj "'f Student"
  | StudentObjs "'f Student list"
  | Message string
  | Detail string
  | ValidationErrors
  | InternalServerError

type_synonym 'f handler = "'f session \<Rightarrow> (exn + 'f content) \<times> 'f session"

text \<open>Python's \<^verbatim>\<open>str\<close> of an integer, as the f-strings of the 400 messages use it.\<close>

definition digit_char :: "nat \<Rightarrow> char" where
  "digit_char d = ''0123456789'' ! d"

function str_nat :: "nat \<Rightarrow> string" where
  "str_nat n = (if n < 10 then [digit_char n] else str_nat (n div 10) @ [digit_char (n mod 10)])"
  by pat_completeness auto
termination
  by (relation "measure (\<lambda>n. n)") auto

declare str_nat.simps [simp del]

definition str_int :: "int \<Rightarrow> string" where
  "str_int i = (if i < 0 then CHR ''-'' # str_nat (nat (- i)) else str_nat (nat i))"

subsection \<open>Project endpoints\<close>

definition create_project :: "ProjectBase \<Rightarrow> 'f handler" where
  "create_project project db =
     (let db1 = add (Add_Project project) db
      in case commit db1 of
           Inl e \<Rightarrow> (Inl e, db1)
         | Inr db2 \<Rightarrow>
             (case refresh_Project db2 (new_key db2) of
                Inl e \<Rightarrow> (Inl e, db2)
              | Inr new_project \<Rightarrow> (Inr (ProjectObj new_project None), db2)))"

definition list_projects :: "'f handler" where
  "list_projects db = (Inr (ProjectObjs (projects (database db))), db)"

definition get_project :: "int \<Rightarrow> 'f handler" where
  "get_project pid db =
     (case get_Project (database db) pid of
        Inl e \<Rightarrow> (Inl e, db)
      | Inr None \<Rightarrow> (Inl (HTTPException 404 ''Project not found''), db)
      | Inr (Some project) \<Rightarrow> (Inr (ProjectObj project None), db))"

definition update_project :: "int \<Rightarrow> ProjectBase \<Rightarrow> 'f handler" where
  "update_project pid updated db =
     (case get_Project (database db) pid of
        Inl e \<Rightarrow> (Inl e, db)
      | Inr None \<Rightarrow> (Inl (HTTPException 404 ''Project not found''), db)
      | Inr (Some project) \<Rightarrow>
          (let db1 = add (Set_Project (Project_id project) updated) db
           in case commit db1 of
                Inl e \<Rightarrow> (Inl e, db1)
              | Inr db2 \<Rightarrow>
                  (case refresh_Project db2 (Some (Project_id project)) of
                     Inl e \<Rightarrow> (Inl e, db2)
                   | Inr project' \<Rightarrow> (Inr (ProjectObj project' None), db2))))"

definition delete_project :: "int \<Rightarrow> 'f handler" where
  "delete_project pid db =
     (case get_Project (database db) pid of
        Inl e \<Rightarrow> (Inl e, db)
      | Inr None \<Rightarrow> (Inl (HTTPException 404 ''Project not found''), db)
      | Inr (Some project) \<Rightarrow>
          (let db1 = fold (\<lambda>student. add (Set_Student_project_id (Student_id student) None))
                       (Project_students (database db) project) db;
               db2 = add (Delete_Project (Project_id project)) db1
           in case commit db2 of
                Inl e \<Rightarrow> (Inl e, db2)
              | Inr db3 \<Rightarrow> (Inr (Message ''Project deleted successfully''), db3)))"

definition list_projects_with_students :: "int \<Rightarrow> 'f handler" where
  "list_projects_with_students pid db =
     (case get_Project (database db) pid of
        Inl e \<Rightarrow> (Inl e, db)
      | Inr None \<Rightarrow> (Inl (HTTPException 404 ''Project not found''), db)
      | Inr (Some project) \<Rightarrow>
          (Inr (ProjectObj project (Some (Project_students (database db) project))), db))"

subsection \<open>Student endpoints\<close>

text \<open>
  The check that \<^verbatim>\<open>create_student\<close> and \<^verbatim>\<open>update_student\<close> both make on the
  payload's \<^verbatim>\<open>project_id\<close>, in the same three lines: a non-null id is looked up,
  and a missing project raises the 400 that names the id. The result is what is
  raised, if anything.
\<close>

definition project_id_check :: "'f session \<Rightarrow> int option \<Rightarrow> exn option" where
  "project_id_check db ref =
     (case ref of
        None \<Rightarrow> None
      | Some pid \<Rightarrow>
          (case get_Project (database db) pid of
             Inl e \<Rightarrow> Some e
           | Inr None \<Rightarrow>
               Some (HTTPException 400 (''Project '' @ str_int pid @ '' does not exist''))
           | Inr (Some project) \<Rightarrow> None))"

definition create_student :: "'f StudentBase \<Rightarrow> 'f handler" where
  "create_student student db =
     (case project_id_check db (project_id student) of
        Some e \<Rightarrow> (Inl e, db)
      | None \<Rightarrow>
          (let db1 = add (Add_Student student) db
           in case commit db1 of
                Inl e \<Rightarrow> (Inl e, db1)
              | Inr db2 \<Rightarrow>
                  (case refresh_Student db2 (new_key db2) of
                     Inl e \<Rightarrow> (Inl e, db2)
                   | Inr new_student \<Rightarrow> (Inr (StudentObj new_student), db2))))"

definition list_students :: "'f handler" where
  "list_students db = (Inr (StudentObjs (students (database db))), db)"

definition get_student :: "int \<Rightarrow> 'f handler" where
  "get_student sid db =
     (case get_Student (database db) sid of
        Inl e \<Rightarrow> (Inl e, db)
      | Inr None \<Rightarrow> (Inl (HTTPException 404 ''Student not found''), db)
      | Inr (Some student) \<Rightarrow> (Inr (StudentObj student), db))"

definition update_student :: "int \<Rightarrow> 'f StudentBase \<Rightarrow> 'f handler" where
  "update_student sid updated db =
     (case get_Student (database db) sid of
        Inl e \<Rightarrow> (Inl e, db)
      | Inr None \<Rightarrow> (Inl (HTTPException 404 ''Student not found''), db)
      | Inr (Some student) \<Rightarrow>
          (case project_id_check db (project_id updated) of
             Some e \<Rightarrow> (Inl e, db)
           | None \<Rightarrow>
               (let db1 = add (Set_Student (Student_id student) updated) db
                in case commit db1 of
                     Inl e \<Rightarrow> (Inl e, db1)
                   | Inr db2 \<Rightarrow>
                       (case refresh_Student db2 (Some (Student_id student)) of
                          Inl e \<Rightarrow> (Inl e, db2)
                        | Inr student' \<Rightarrow> (Inr (StudentObj student'), db2)))))"

definition delete_student :: "int \<Rightarrow> 'f handler" where
  "delete_student sid db =
     (case get_Student (database db) sid of
        Inl e \<Rightarrow> (Inl e, db)
      | Inr None \<Rightarrow> (Inl (HTTPException 404 ''Student not found''), db)
      | Inr (Some student) \<Rightarrow>
          (let db1 = add (Delete_Student (Student_id student)) db
           in case commit db1 of
                Inl e \<Rightarrow> (Inl e, db1)
              | Inr db2 \<Rightarrow> (Inr (Message ''Student deleted successfully''), db2)))"

section \<open>The application\<close>

text \<open>
  The eleven routes. A route with a body validates it against its schema before the
  handler runs.
\<close>

datatype 'f request =
    POST_projects ProjectBody
  | GET_projects
  | GET_project int
  | PUT_project int ProjectBody
  | DELETE_project int
  | GET_project_students int
  | POST_students "'f StudentBody"
  | GET_students
  | GET_student int
  | PUT_student int "'f StudentBody"
  | DELETE_student int

definition with_body :: "exn + 'a \<Rightarrow> ('a \<Rightarrow> 'f handler) \<Rightarrow> 'f handler" where
  "with_body v h db = (case v of Inl e \<Rightarrow> (Inl e, db) | Inr payload \<Rightarrow> h payload db)"

text \<open>The handler of a route.\<close>

fun handler :: "'f request \<Rightarrow> 'f handler" where
  "handler (POST_projects b) = with_body (ProjectBase_validate b) create_project"
| "handler GET_projects = list_projects"
| "handler (GET_project pid) = get_project pid"
| "handler (PUT_project pid b) = with_body (ProjectBase_validate b) (update_project pid)"
| "handler (DELETE_project pid) = delete_project pid"
| "handler (GET_project_students pid) = list_projects_with_students pid"
| "handler (POST_students b) = with_body (StudentBase_validate b) create_student"
| "handler GET_students = list_students"
| "handler (GET_student sid) = get_student sid"
| "handler (PUT_student sid b) = with_body (StudentBase_validate b) (update_student sid)"
| "handler (DELETE_student sid) = delete_student sid"

text \<open>The \<^verbatim>\<open>status_code\<close> a route's decorator declares; 200 when it declares none.\<close>

fun status_code :: "'f request \<Rightarrow> int" where
  "status_code (POST_projects b) = 201"
| "status_code (DELETE_project pid) = 204"
| "status_code (POST_students b) = 201"
| "status_code (DELETE_student sid) = 204"
| "status_code _ = 200"

text \<open>
  \<^verbatim>\<open>get_db\<close>: the handler runs on a session of its own, which is closed on every
  exit path. Closing drops the changes that were not committed; what persists is the
  session's database.
\<close>

definition get_db :: "'f handler \<Rightarrow> 'f store \<Rightarrow> (exn + 'f content) \<times> 'f store" where
  "get_db h db = (case h (SessionLocal db) of (r, s) \<Rightarrow> (r, database s))"

text \<open>The routes whose decorator declares a \<^verbatim>\<open>response_model\<close>.\<close>

fun response_model :: "'f request \<Rightarrow> bool" where
  "response_model (DELETE_project pid) = False"
| "response_model (GET_project_students pid) = False"
| "response_model GET_students = False"
| "response_model (DELETE_student sid) = False"
| "response_model _ = True"

text \<open>
  The web framework's part, which is not code of the repository. An
  \<^verbatim>\<open>HTTPException\<close> becomes a response with its status and detail, a failed
  validation 422, any other exception 500. A returned value is encoded as JSON and
  sent with the route's status code, without a body when that status code allows
  none. On a route with a \<^verbatim>\<open>response_model\<close> the value goes through the schema,
  which writes a float that is not finite as null. On a route without one the
  objects go to the JSON encoder as they are, and the encoder refuses a float that
  is not finite: the request then ends as an unhandled error, 500.
\<close>

fun json_float :: "'f pyfloat \<Rightarrow> bool" where
  "json_float (Finite x) = True"
| "json_float _ = False"

definition json_Student :: "'f Student \<Rightarrow> bool" where
  "json_Student s = (case cgpa s of None \<Rightarrow> True | Some x \<Rightarrow> json_float x)"

fun json_compliant :: "'f content \<Rightarrow> bool" where
  "json_compliant (ProjectObj p ss) =
     (case ss of None \<Rightarrow> True | Some members \<Rightarrow> list_all json_Student members)"
| "json_compliant (StudentObj s) = json_Student s"
| "json_compliant (StudentObjs ss) = list_all json_Student ss"
| "json_compliant _ = True"

definition schema_Student :: "'f Student \<Rightarrow> 'f Student" where
  "schema_Student s = (if json_Student s then s else s\<lparr>cgpa := None\<rparr>)"

fun schema_dump :: "'f content \<Rightarrow> 'f content" where
  "schema_dump (StudentObj s) = StudentObj (schema_Student s)"
| "schema_dump (StudentObjs ss) = StudentObjs (map schema_Student ss)"
| "schema_dump v = v"

definition is_body_allowed_for_status_code :: "int \<Rightarrow> bool" where
  "is_body_allowed_for_status_code c = (\<not> (c < 200 \<or> c \<in> {204, 205, 304}))"

record 'f response =
  status :: int
  body :: "'f content option"

definition respond :: "'f request \<Rightarrow> exn + 'f content \<Rightarrow> 'f response" where
  "respond req r =
     (case r of
        Inl (HTTPException c d) \<Rightarrow> \<lparr>status = c, body = Some (Detail d)\<rparr>
      | Inl RequestValidationError \<Rightarrow> \<lparr>status = 422, body = Some ValidationErrors\<rparr>
      | Inl _ \<Rightarrow> \<lparr>status = 500, body = Some InternalServerError\<rparr>
      | Inr v \<Rightarrow>
          if \<not> response_model req \<and> \<not> json_compliant v
          then \<lparr>status = 500, body = Some InternalServerError\<rparr>
          else \<lparr>status = status_code req,
                body = (if is_body_allowed_for_status_code (status_code req)
                        then Some (if response_model req then schema_dump v else v)
                        else None)\<rparr>)"

definition app :: "'f request \<Rightarrow> 'f store \<Rightarrow> 'f response \<times> 'f store" where
  "app req db = (case get_db (handler req) db of (r, db') \<Rightarrow> (respond req r, db'))"

text \<open>The routes declared with \<^verbatim>\<open>@app.get\<close>.\<close>

fun is_GET :: "'f request \<Rightarrow> bool" where
  "is_GET GET_projects = True"
| "is_GET (GET_project pid) = True"
| "is_GET (GET_project_students pid) = True"
| "is_GET GET_students = True"
| "is_GET (GET_student sid) = True"
| "is_GET _ = False"

text \<open>A sequence of requests, one after the other.\<close>

fun run :: "'f request list \<Rightarrow> 'f store \<Rightarrow> 'f store" where
  "run [] db = db"
| "run (req # reqs) db = run reqs (snd (app req db))"

section \<open>Vocabulary of the properties\<close>

text \<open>
  Referential integrity of a store: the foreign key of every student is null or
  the id of a project in the store.
\<close>

definition ref_integrity :: "'f store \<Rightarrow> bool" where
  "ref_integrity db =
     list_all (\<lambda>s. case project_id s of
                      None \<Rightarrow> True
                    | Some pid \<Rightarrow> pid \<in> set (map Project_id (projects db)))
       (students db)"

text \<open>
  The exceptions that end a request: the two 404s, the 400 of a missing project, the
  storage's \<^verbatim>\<open>IntegrityError\<close>, the \<^verbatim>\<open>OverflowError\<close> of a key out of range and
  the validation error of the body.
\<close>

definition request_errors :: "exn set" where
  "request_errors =
     {HTTPException 404 ''Project not found'', HTTPException 404 ''Student not found'',
      IntegrityError, OverflowError, RequestValidationError}
     \<union> range (\<lambda>pid. HTTPException 400 (''Project '' @ str_int pid @ '' does not exist''))"

subsection \<open>Example data\<close>

definition project_alpha :: ProjectBase where
  "project_alpha = \<lparr>project_name = ''Alpha'', project_description = ''desc''\<rparr>"

definition project_beta :: ProjectBase where
  "project_beta = \<lparr>project_name = ''Beta'', project_description = ''other''\<rparr>"

definition student_of_email :: "string \<Rightarrow> int option \<Rightarrow> real StudentBase" where
  "student_of_email e ref =
     \<lparr>name = ''A'', email = e, linkedin_profile = None, about_you = None,
      specialisation = None, cgpa = Some (Finite 3.5), favourite_language = None,
      favourite_framework = None, is_leader = False, project_id = ref\<rparr>"

definition store_two_members :: "real store" where
  "store_two_members =
     \<lparr>projects = [Project_of 1 project_alpha, Project_of 2 project_beta],
      students = [Student_of 1 (student_of_email ''a@x.com'' (Some 1)),
                  Student_of 2 (student_of_email ''b@x.com'' (Some 2)),
                  Student_of 3 (student_of_email ''c@x.com'' (Some 1)),
                  Student_of 4 (student_of_email ''d@x.com'' None)]\<rparr>"

definition student_with_cgpa :: "string \<Rightarrow> int option \<Rightarrow> real pyfloat option \<Rightarrow> real StudentBase" where
  "student_with_cgpa e ref c = (student_of_email e ref)\<lparr>cgpa := c\<rparr>"

definition store_infinite_member :: "real store" where
  "store_infinite_member =
     \<lparr>projects = [Project_of 1 project_alpha],
      students = [Student_of 1 (student_with_cgpa ''a@x.com'' (Some 1) (Some Infinity))]\<rparr>"

definition store_idle_project :: "real store" where
  "store_idle_project =
     \<lparr>projects = [Project_of 1 project_alpha, Project_of 2 project_beta],
      students = [Student_of 1 (student_of_email ''a@x.com'' (Some 2)),
                  Student_of 2 (student_of_email ''b@x.com'' None)]\<rparr>"

definition ProjectBody_of :: "ProjectBase \<Rightarrow> ProjectBody" where
  "ProjectBody_of p =
     \<lparr>json_project_name = Some (project_name p),
      json_project_description = Some (project_description p)\<rparr>"

definition StudentBody_of :: "'f StudentBase \<Rightarrow> 'f StudentBody" where
  "StudentBody_of u =
     \<lparr>json_name = Some (name u), json_email = Some (email u),
      json_linkedin_profile = Some (linkedin_profile u),
      json_about_you = Some (about_you u),
      json_specialisation = Some (specialisation u),
      json_cgpa = Some (cgpa u),
      json_favourite_language = Some (favourite_language u),
      json_favourite_framework = Some (favourite_framework u),
      json_is_leader = Some (is_leader u),
      json_project_id = Some (project_id u)\<rparr>"

definition StudentBody_required :: "string \<Rightarrow> string \<Rightarrow> real StudentBody" where
  "StudentBody_required n e =
     \<lparr>json_name = Some n, json_email = Some e, json_linkedin_profile = None,
      json_about_you = None, json_specialisation = None, json_cgpa = None,
      json_favourite_language = None, json_favourite_framework = None,
      json_is_leader = None, json_project_id = None\<rparr>"

definition student_bare :: "string \<Rightarrow> string \<Rightarrow> real StudentBase" where
  "student_bare n e =
     \<lparr>name = n, email = e, linkedin_profile = None, about_you = None,
      specialisation = None, cgpa = None, favourite_language = None,
      favourite_framework = None, is_leader = False, project_id = None\<rparr>"

definition requests_join_then_delete :: "real request list" where
  "requests_join_then_delete =
     [POST_projects (ProjectBody_of project_alpha),
      POST_projects (ProjectBody_of project_beta),
      POST_students (StudentBody_of (student_of_email ''a@x.com'' (Some 1))),
      POST_students (StudentBody_of (student_of_email ''b@x.com'' (Some 2))),
      DELETE_project 1]"

lemmas body_defs =
  ProjectBody_of_def StudentBody_of_def StudentBody_required_def requests_join_then_delete_def

lemmas example_defs =
  project_alpha_def project_beta_def student_of_email_def student_bare_def
  student_with_cgpa_def store_infinite_member_def
  store_two_members_def
  store_idle_project_def
  Project_of_def Student_of_def

lemmas app_defs =
  app_def get_db_def SessionLocal_def commit_def add_def respond_def with_body_def
  is_body_allowed_for_status_code_def
  refresh_Project_def refresh_Student_def get_Project_def get_Student_def
  select_Project_def select_Student_def in_int64_def sql_real_def stored_def
  project_id_check_def json_Student_def schema_Student_def
  Project_students_def next_rowid_def
  create_project_def list_projects_def get_project_def update_project_def
  delete_project_def list_projects_with_students_def
  create_student_def list_students_def get_student_def update_student_def
  delete_student_def ProjectBase_validate_def StudentBase_validate_def field_default_def


section \<open>Facts about the storage\<close>

lemma find_Some_iff_D: "find P xs = Some x \<Longrightarrow> P x \<and> x \<in> set xs"
  by (induction xs) (auto split: if_splits)

lemma select_Project_SomeD:
  "select_Project db k = Some p \<Longrightarrow> Project_id p = k \<and> p \<in> set (projects db)"
  unfolding select_Project_def by (auto dest: find_Some_iff_D)

lemma select_Project_None_iff:
  "select_Project db k = None \<longleftrightarrow> k \<notin> Project_id ` set (projects db)"
  unfolding select_Project_def by (auto simp: find_None_iff)

lemma select_Student_SomeD:
  "select_Student db k = Some s \<Longrightarrow> Student_id s = k \<and> s \<in> set (students db)"
  unfolding select_Student_def by (auto dest: find_Some_iff_D)

lemma select_Student_None_iff:
  "select_Student db k = None \<longleftrightarrow> k \<notin> Student_id ` set (students db)"
  unfolding select_Student_def by (auto simp: find_None_iff)

lemma get_Project_in: "in_int64 k \<Longrightarrow> get_Project db k = Inr (select_Project db k)"
  by (simp add: get_Project_def)

lemma get_Project_out: "\<not> in_int64 k \<Longrightarrow> get_Project db k = Inl OverflowError"
  by (simp add: get_Project_def)

lemma get_Student_in: "in_int64 k \<Longrightarrow> get_Student db k = Inr (select_Student db k)"
  by (simp add: get_Student_def)

lemma get_Student_out: "\<not> in_int64 k \<Longrightarrow> get_Student db k = Inl OverflowError"
  by (simp add: get_Student_def)

lemma get_Project_Inr_iff:
  "get_Project db k = Inr r \<longleftrightarrow> in_int64 k \<and> select_Project db k = r"
  by (simp add: get_Project_def)

lemma get_Student_Inr_iff:
  "get_Student db k = Inr r \<longleftrightarrow> in_int64 k \<and> select_Student db k = r"
  by (simp add: get_Student_def)

lemma fold_max_ge: "(k::int) \<le> fold max ks k"
  by (induction ks arbitrary: k) (auto intro: order_trans[OF max.cobounded2])

lemma fold_max_mem: "(x::int) \<in> set ks \<Longrightarrow> x \<le> fold max ks k"
proof (induction ks arbitrary: k)
  case Nil then show ?case by simp
next
  case (Cons a ks)
  show ?case
  proof (cases "x = a")
    case True
    have "a \<le> max a k" by simp
    also have "\<dots> \<le> fold max ks (max a k)" by (rule fold_max_ge)
    finally show ?thesis using True by simp
  next
    case False
    with Cons show ?thesis by simp
  qed
qed

lemma next_rowid_fresh: "k \<in> set ks \<Longrightarrow> k < next_rowid ks"
  unfolding next_rowid_def
  by (cases ks) (auto simp: less_Suc_eq_le dest: fold_max_mem intro: fold_max_ge le_less_trans)

lemma find_append_new: "\<forall>x \<in> set xs. \<not> P x \<Longrightarrow> P y \<Longrightarrow> find P (xs @ [y]) = Some y"
  by (induction xs) auto

lemma find_map_replace:
  "find (\<lambda>r. key r = k) xs = Some x \<Longrightarrow> key y = k \<Longrightarrow>
   find (\<lambda>r. key r = k) (map (\<lambda>r. if key r = k then y else r) xs) = Some y"
  by (induction xs) (auto split: if_splits)

lemma map_key_replace:
  "key y = k \<Longrightarrow> map key (map (\<lambda>r. if key r = k then y else r) xs) = map key xs"
  by (induction xs) auto

lemma flush_append:
  "flush (cs @ ds) st = (case flush cs st of Inl e \<Rightarrow> Inl e | Inr st' \<Rightarrow> flush ds st')"
  by (induction cs arbitrary: st) (auto split: sum.splits)

lemma fold_add:
  "fold (\<lambda>x. add (f x)) xs s = s\<lparr>pending := pending s @ map f xs\<rparr>"
  by (induction xs arbitrary: s) (simp_all add: add_def)

lemma flush_null:
  "flush (map (\<lambda>s. Set_Student_project_id (Student_id s) None) xs) (db, k) =
   Inr (db\<lparr>students :=
            map (\<lambda>r. if Student_id r \<in> Student_id ` set xs then r\<lparr>project_id := None\<rparr> else r)
              (students db)\<rparr>, k)"
proof (induction xs arbitrary: db)
  case Nil
  then show ?case by simp
next
  case (Cons a xs)
  show ?case
    by (simp add: Cons.IH)
qed

lemma Project_id_Project_of [simp]: "Project_id (Project_of k p) = k"
  by (simp add: Project_of_def)

lemma Student_id_Student_of [simp]: "Student_id (Student_of k u) = k"
  by (simp add: Student_of_def)

lemma project_id_Student_of [simp]: "project_id (Student_of k u) = project_id u"
  by (simp add: Student_of_def)

lemma email_Student_of [simp]: "email (Student_of k u) = email u"
  by (simp add: Student_of_def)

lemma stored_simps [simp]:
  "Student_id (stored r) = Student_id r"
  "project_id (stored r) = project_id r"
  "email (stored r) = email r"
  "name (stored r) = name r"
  "cgpa (stored r) = sql_real (cgpa r)"
  by (simp_all add: stored_def)

section \<open>What each handler does\<close>

lemma project_id_check_eq:
  "project_id_check s ref =
     (case ref of
        None \<Rightarrow> None
      | Some pid \<Rightarrow>
          if \<not> in_int64 pid then Some OverflowError
          else if pid \<notin> Project_id ` set (projects (database s))
          then Some (HTTPException 400 (''Project '' @ str_int pid @ '' does not exist''))
          else None)"
  by (auto simp: project_id_check_def get_Project_def select_Project_None_iff[symmetric]
      split: option.splits)

lemma project_id_check_None_iff:
  "project_id_check s ref = None \<longleftrightarrow>
   (\<forall>pid. ref = Some pid \<longrightarrow> in_int64 pid \<and> pid \<in> Project_id ` set (projects (database s)))"
  by (simp add: project_id_check_eq split: option.splits)

lemma project_id_check_SessionLocal:
  "project_id_check (SessionLocal db) ref = project_id_check \<lparr>database = db, pending = [], new_key = None\<rparr> ref"
  by (simp add: SessionLocal_def)

lemma get_db_delete_project:
  assumes "in_int64 pid" and "select_Project db pid = Some P"
  shows "get_db (delete_project pid) db =
    (Inr (Message ''Project deleted successfully''),
     db\<lparr>students :=
            map (\<lambda>r. if Student_id r \<in> Student_id ` set (Project_students db P)
                      then r\<lparr>project_id := None\<rparr> else r) (students db),
        projects := filter (\<lambda>r. Project_id r \<noteq> pid) (projects db)\<rparr>)"
  using assms select_Project_SomeD[OF assms(2)]
  by (simp add: get_db_def delete_project_def SessionLocal_def commit_def fold_add add_def
      flush_append flush_null get_Project_in)

lemma get_db_create_project:
  "get_db (create_project p) db =
     (Inr (ProjectObj (Project_of (next_rowid (map Project_id (projects db))) p) None),
      db\<lparr>projects := projects db @ [Project_of (next_rowid (map Project_id (projects db))) p]\<rparr>)"
proof -
  let ?k = "next_rowid (map Project_id (projects db))"
  have "\<forall>x \<in> set (projects db). Project_id x \<noteq> ?k"
    using next_rowid_fresh[of _ "map Project_id (projects db)"] by fastforce
  then have "find (\<lambda>r. Project_id r = ?k) (projects db @ [Project_of ?k p]) = Some (Project_of ?k p)"
    by (intro find_append_new) simp_all
  then show ?thesis
    by (simp add: get_db_def create_project_def SessionLocal_def commit_def add_def Let_def
        refresh_Project_def select_Project_def)
qed

lemma get_db_update_project:
  assumes "in_int64 pid" and "select_Project db pid = Some P"
  shows "get_db (update_project pid u) db =
     (Inr (ProjectObj (Project_of pid u) None),
      db\<lparr>projects := map (\<lambda>r. if Project_id r = pid then Project_of pid u else r) (projects db)\<rparr>)"
proof -
  have "find (\<lambda>r. Project_id r = pid)
          (map (\<lambda>r. if Project_id r = pid then Project_of pid u else r) (projects db)) =
        Some (Project_of pid u)"
    using assms(2) unfolding select_Project_def by (intro find_map_replace[where x=P]) simp_all
  then show ?thesis
    using assms select_Project_SomeD[OF assms(2)]
    by (simp add: get_db_def update_project_def SessionLocal_def commit_def add_def Let_def
        refresh_Project_def select_Project_def get_Project_def)
qed

lemma get_db_delete_student:
  assumes "in_int64 sid" and "select_Student db sid = Some S"
  shows "get_db (delete_student sid) db =
     (Inr (Message ''Student deleted successfully''),
      db\<lparr>students := filter (\<lambda>r. Student_id r \<noteq> sid) (students db)\<rparr>)"
  using assms select_Student_SomeD[OF assms(2)]
  by (simp add: get_db_def delete_student_def SessionLocal_def commit_def add_def Let_def
      get_Student_in)

lemma get_db_create_student:
  "get_db (create_student u) db =
     (case project_id_check (SessionLocal db) (project_id u) of
        Some e \<Rightarrow> (Inl e, db)
      | None \<Rightarrow>
          if email u \<in> email ` set (students db) then (Inl IntegrityError, db)
          else (Inr (StudentObj (stored (Student_of (next_rowid (map Student_id (students db))) u))),
                db\<lparr>students := students db @
                    [stored (Student_of (next_rowid (map Student_id (students db))) u)]\<rparr>))"
proof -
  let ?k = "next_rowid (map Student_id (students db))"
  have "\<forall>x \<in> set (students db). Student_id x \<noteq> ?k"
    using next_rowid_fresh[of _ "map Student_id (students db)"] by fastforce
  then have "find (\<lambda>r. Student_id r = ?k) (students db @ [stored (Student_of ?k u)])
      = Some (stored (Student_of ?k u))"
    by (intro find_append_new) simp_all
  then show ?thesis
    by (simp add: get_db_def create_student_def SessionLocal_def commit_def add_def Let_def
        refresh_Student_def select_Student_def split: option.split)
qed

lemma get_db_update_student:
  assumes "in_int64 sid" and "select_Student db sid = Some S"
  shows "get_db (update_student sid u) db =
     (case project_id_check (SessionLocal db) (project_id u) of
        Some e \<Rightarrow> (Inl e, db)
      | None \<Rightarrow>
          if list_ex (\<lambda>r. Student_id r \<noteq> sid \<and> email r = email u) (students db)
          then (Inl IntegrityError, db)
          else (Inr (StudentObj (stored (Student_of sid u))),
                db\<lparr>students := map (\<lambda>r. if Student_id r = sid then stored (Student_of sid u) else r)
                                 (students db)\<rparr>))"
proof -
  have "find (\<lambda>r. Student_id r = sid)
          (map (\<lambda>r. if Student_id r = sid then stored (Student_of sid u) else r) (students db)) =
        Some (stored (Student_of sid u))"
    using assms(2) unfolding select_Student_def by (intro find_map_replace[where x=S]) simp_all
  then show ?thesis
    using assms select_Student_SomeD[OF assms(2)]
    by (simp add: get_db_def update_student_def SessionLocal_def commit_def add_def Let_def
        refresh_Student_def select_Student_def get_Student_def split: option.split)
qed

lemma get_db_None:
  "in_int64 pid \<Longrightarrow> select_Project db pid = None \<Longrightarrow>
   get_db (update_project pid p) db = (Inl (HTTPException 404 ''Project not found''), db)"
  "in_int64 pid \<Longrightarrow> select_Project db pid = None \<Longrightarrow>
   get_db (delete_project pid) db = (Inl (HTTPException 404 ''Project not found''), db)"
  "in_int64 sid \<Longrightarrow> select_Student db sid = None \<Longrightarrow>
   get_db (update_student sid u) db = (Inl (HTTPException 404 ''Student not found''), db)"
  "in_int64 sid \<Longrightarrow> select_Student db sid = None \<Longrightarrow>
   get_db (delete_student sid) db = (Inl (HTTPException 404 ''Student not found''), db)"
  by (simp_all add: get_db_def SessionLocal_def update_project_def delete_project_def
      update_student_def delete_student_def get_Project_def get_Student_def)

lemma get_db_out:
  "\<not> in_int64 pid \<Longrightarrow> get_db (update_project pid p) db = (Inl OverflowError, db)"
  "\<not> in_int64 pid \<Longrightarrow> get_db (delete_project pid) db = (Inl OverflowError, db)"
  "\<not> in_int64 sid \<Longrightarrow> get_db (update_student sid u) db = (Inl OverflowError, db)"
  "\<not> in_int64 sid \<Longrightarrow> get_db (delete_student sid) db = (Inl OverflowError, db)"
  by (simp_all add: get_db_def SessionLocal_def update_project_def delete_project_def
      update_student_def delete_student_def get_Project_def get_Student_def)

lemma get_db_read:
  "snd (get_db list_projects db) = db"
  "snd (get_db list_students db) = db"
  "snd (get_db (get_project pid) db) = db"
  "snd (get_db (get_student sid) db) = db"
  "snd (get_db (list_projects_with_students pid) db) = db"
  by (simp_all add: get_db_def SessionLocal_def list_projects_def list_students_def
      get_project_def get_student_def list_projects_with_students_def
      split: option.split sum.split)

lemma get_db_with_body:
  "get_db (with_body v h) db = (case v of Inl e \<Rightarrow> (Inl e, db) | Inr p \<Rightarrow> get_db (h p) db)"
  by (simp add: get_db_def with_body_def SessionLocal_def split: sum.split)

lemma snd_app: "snd (app req db) = snd (get_db (handler req) db)"
  by (simp add: app_def split: prod.split)

section \<open>Referential integrity is preserved\<close>

lemma ref_integrity_iff:
  "ref_integrity db \<longleftrightarrow>
   (\<forall>s \<in> set (students db). \<forall>pid. project_id s = Some pid \<longrightarrow> pid \<in> Project_id ` set (projects db))"
  by (auto simp: ref_integrity_def list_all_iff split: option.splits)

lemma ref_integrity_create_project:
  "ref_integrity db \<Longrightarrow> ref_integrity (snd (get_db (create_project p) db))"
  by (auto simp: get_db_create_project ref_integrity_iff)

lemma ref_integrity_update_project:
  assumes "ref_integrity db"
  shows "ref_integrity (snd (get_db (update_project pid p) db))"
proof (cases "in_int64 pid")
  case False
  then show ?thesis using assms by (simp add: get_db_out)
next
  case True
  show ?thesis
  proof (cases "select_Project db pid")
    case None
    then show ?thesis using assms True by (simp add: get_db_None)
  next
    case (Some P)
    have "Project_id ` set (map (\<lambda>r. if Project_id r = pid then Project_of pid p else r) (projects db))
          = Project_id ` set (projects db)"
    proof -
      have "map Project_id (map (\<lambda>r. if Project_id r = pid then Project_of pid p else r) (projects db))
            = map Project_id (projects db)"
        by (rule map_key_replace) simp
      then have "set (map Project_id (map (\<lambda>r. if Project_id r = pid then Project_of pid p else r) (projects db)))
            = set (map Project_id (projects db))"
        by (rule arg_cong)
      then show ?thesis
        by (simp only: set_map)
    qed
    then show ?thesis
      using assms by (simp add: get_db_update_project[OF True Some] ref_integrity_iff)
  qed
qed

lemma ref_integrity_delete_project:
  assumes "ref_integrity db"
  shows "ref_integrity (snd (get_db (delete_project pid) db))"
proof (cases "in_int64 pid")
  case False
  then show ?thesis using assms by (simp add: get_db_out)
next
  case True
  show ?thesis
  proof (cases "select_Project db pid")
    case None
    then show ?thesis using assms True by (simp add: get_db_None)
  next
    case (Some P)
    have pid: "Project_id P = pid"
      using select_Project_SomeD[OF Some] by simp
    let ?db' = "db\<lparr>students :=
              map (\<lambda>r. if Student_id r \<in> Student_id ` set (Project_students db P)
                        then r\<lparr>project_id := None\<rparr> else r) (students db),
            projects := filter (\<lambda>r. Project_id r \<noteq> pid) (projects db)\<rparr>"
    have "ref_integrity ?db'"
      unfolding ref_integrity_iff
    proof (intro ballI allI impI)
      fix s q
      assume s: "s \<in> set (students ?db')" and q: "project_id s = Some q"
      from s obtain r where r: "r \<in> set (students db)"
        and sr: "s = (if Student_id r \<in> Student_id ` set (Project_students db P)
                      then r\<lparr>project_id := None\<rparr> else r)"
        by auto
      from sr q have keep: "Student_id r \<notin> Student_id ` set (Project_students db P)" and "s = r"
        by (auto split: if_splits)
      then have rq: "project_id r = Some q" using q by simp
      have "q \<noteq> pid"
      proof
        assume "q = pid"
        with rq r pid have "r \<in> set (Project_students db P)"
          by (simp add: Project_students_def)
        with keep show False by blast
      qed
      moreover have "q \<in> Project_id ` set (projects db)"
        using assms r rq by (auto simp: ref_integrity_iff)
      ultimately show "q \<in> Project_id ` set (projects ?db')"
        by auto
    qed
    then show ?thesis
      by (simp add: get_db_delete_project[OF True Some])
  qed
qed

lemma ref_integrity_create_student:
  assumes "ref_integrity db"
  shows "ref_integrity (snd (get_db (create_student u) db))"
proof (cases "project_id_check (SessionLocal db) (project_id u) = None
              \<and> email u \<notin> email ` set (students db)")
  case False
  then have "snd (get_db (create_student u) db) = db"
    unfolding get_db_create_student by (auto split: option.splits)
  then show ?thesis using assms by simp
next
  case True
  then have ok: "\<And>pid. project_id u = Some pid \<Longrightarrow> pid \<in> Project_id ` set (projects db)"
    by (simp add: project_id_check_None_iff SessionLocal_def)
  from True have eq: "snd (get_db (create_student u) db) =
      db\<lparr>students := students db @
          [stored (Student_of (next_rowid (map Student_id (students db))) u)]\<rparr>"
    unfolding get_db_create_student by simp
  show ?thesis
    unfolding eq ref_integrity_iff using assms ok
    by (auto simp: ref_integrity_iff)
qed

lemma ref_integrity_update_student:
  assumes "ref_integrity db"
  shows "ref_integrity (snd (get_db (update_student sid u) db))"
proof (cases "in_int64 sid")
  case False
  then show ?thesis using assms by (simp add: get_db_out)
next
  case inr: True
  show ?thesis
  proof (cases "select_Student db sid")
    case None
    then show ?thesis using assms inr by (simp add: get_db_None)
  next
    case (Some S)
    show ?thesis
    proof (cases "project_id_check (SessionLocal db) (project_id u) = None
                  \<and> \<not> list_ex (\<lambda>r. Student_id r \<noteq> sid \<and> email r = email u) (students db)")
      case False
      then have "snd (get_db (update_student sid u) db) = db"
        unfolding get_db_update_student[OF inr Some] by (auto split: option.splits)
      then show ?thesis using assms by simp
    next
      case True
      then have ok: "\<And>pid. project_id u = Some pid \<Longrightarrow> pid \<in> Project_id ` set (projects db)"
        by (simp add: project_id_check_None_iff SessionLocal_def)
      let ?db' = "db\<lparr>students :=
          map (\<lambda>r. if Student_id r = sid then stored (Student_of sid u) else r) (students db)\<rparr>"
      from True have eq: "snd (get_db (update_student sid u) db) = ?db'"
        unfolding get_db_update_student[OF inr Some] by simp
      have "ref_integrity ?db'"
        unfolding ref_integrity_iff
      proof (intro ballI allI impI)
        fix s q
        assume "s \<in> set (students ?db')" and q: "project_id s = Some q"
        then obtain r where r: "r \<in> set (students db)"
          and sr: "s = (if Student_id r = sid then stored (Student_of sid u) else r)"
          by auto
        have "q \<in> Project_id ` set (projects db)"
        proof (cases "Student_id r = sid")
          case True
          with sr q have "project_id u = Some q" by simp
          then show ?thesis by (rule ok)
        next
          case False
          with sr q r assms show ?thesis by (auto simp: ref_integrity_iff)
        qed
        then show "q \<in> Project_id ` set (projects ?db')"
          by simp
      qed
      then show ?thesis by (simp only: eq)
    qed
  qed
qed

lemma ref_integrity_delete_student:
  assumes "ref_integrity db"
  shows "ref_integrity (snd (get_db (delete_student sid) db))"
proof (cases "in_int64 sid")
  case False
  then show ?thesis using assms by (simp add: get_db_out)
next
  case True
  show ?thesis
  proof (cases "select_Student db sid")
    case None
    then show ?thesis using assms True by (simp add: get_db_None)
  next
    case (Some S)
    show ?thesis
      using assms by (auto simp: get_db_delete_student[OF True Some] ref_integrity_iff)
  qed
qed

lemma ref_integrity_app:
  assumes "ref_integrity db"
  shows "ref_integrity (snd (app req db))"
  unfolding snd_app using assms
  by (cases req)
     (simp_all add: get_db_with_body get_db_read ref_integrity_create_project
        ref_integrity_update_project ref_integrity_delete_project
        ref_integrity_create_student ref_integrity_update_student
        ref_integrity_delete_student split: sum.split)

lemma ref_integrity_run:
  "ref_integrity db \<Longrightarrow> ref_integrity (run reqs db)"
  by (induction reqs arbitrary: db) (simp_all add: ref_integrity_app)

lemma ref_integrity_empty: "ref_integrity empty_store"
  by (simp add: ref_integrity_def empty_store_def)

section \<open>Errors come before the commit\<close>










lemma request_errors_simps [simp]:
  "HTTPException 404 ''Project not found'' \<in> request_errors"
  "HTTPException 404 ''Student not found'' \<in> request_errors"
  "IntegrityError \<in> request_errors"
  "OverflowError \<in> request_errors"
  "RequestValidationError \<in> request_errors"
  by (auto simp: request_errors_def)

lemma status_request_error:
  "e \<in> request_errors \<Longrightarrow> 400 \<le> status (respond req (Inl e))"
  by (auto simp: request_errors_def respond_def)


lemma project_id_check_error:
  "project_id_check s ref = Some e \<Longrightarrow> e \<in> request_errors"
  by (auto simp: project_id_check_eq request_errors_def split: option.splits if_splits)











section \<open>Responses of single requests\<close>

lemma app_DELETE_project:
  assumes "in_int64 pid" and "select_Project db pid = Some P"
  shows "app (DELETE_project pid) db =
    (\<lparr>status = 204, body = None\<rparr>,
     db\<lparr>students :=
            map (\<lambda>r. if Student_id r \<in> Student_id ` set (Project_students db P)
                      then r\<lparr>project_id := None\<rparr> else r) (students db),
        projects := filter (\<lambda>r. Project_id r \<noteq> pid) (projects db)\<rparr>)"
  by (simp add: app_def get_db_delete_project[OF assms] respond_def
      is_body_allowed_for_status_code_def)

lemma app_DELETE_student:
  assumes "in_int64 sid" and "select_Student db sid = Some S"
  shows "app (DELETE_student sid) db =
    (\<lparr>status = 204, body = None\<rparr>,
     db\<lparr>students := filter (\<lambda>r. Student_id r \<noteq> sid) (students db)\<rparr>)"
  by (simp add: app_def get_db_delete_student[OF assms] respond_def
      is_body_allowed_for_status_code_def)

lemma app_DELETE_None:
  "in_int64 pid \<Longrightarrow> select_Project db pid = None \<Longrightarrow>
   app (DELETE_project pid) db = (\<lparr>status = 404, body = Some (Detail ''Project not found'')\<rparr>, db)"
  "in_int64 sid \<Longrightarrow> select_Student db sid = None \<Longrightarrow>
   app (DELETE_student sid) db = (\<lparr>status = 404, body = Some (Detail ''Student not found'')\<rparr>, db)"
  by (simp_all add: app_def get_db_None respond_def)

lemma app_DELETE_out:
  "\<not> in_int64 pid \<Longrightarrow>
   app (DELETE_project pid) db = (\<lparr>status = 500, body = Some InternalServerError\<rparr>, db)"
  "\<not> in_int64 sid \<Longrightarrow>
   app (DELETE_student sid) db = (\<lparr>status = 500, body = Some InternalServerError\<rparr>, db)"
  by (simp_all add: app_def get_db_out respond_def)

lemma app_GET_project:
  "app (GET_project pid) db =
     (if \<not> in_int64 pid then (\<lparr>status = 500, body = Some InternalServerError\<rparr>, db)
      else case select_Project db pid of
             None \<Rightarrow> (\<lparr>status = 404, body = Some (Detail ''Project not found'')\<rparr>, db)
           | Some P \<Rightarrow> (\<lparr>status = 200, body = Some (ProjectObj P None)\<rparr>, db))"
  by (simp add: app_def get_db_def get_project_def SessionLocal_def respond_def
      get_Project_def is_body_allowed_for_status_code_def split: option.split)

lemma app_GET_student:
  "app (GET_student sid) db =
     (if \<not> in_int64 sid then (\<lparr>status = 500, body = Some InternalServerError\<rparr>, db)
      else case select_Student db sid of
             None \<Rightarrow> (\<lparr>status = 404, body = Some (Detail ''Student not found'')\<rparr>, db)
           | Some S \<Rightarrow> (\<lparr>status = 200, body = Some (StudentObj (schema_Student S))\<rparr>, db))"
  by (simp add: app_def get_db_def get_student_def SessionLocal_def respond_def
      get_Student_def is_body_allowed_for_status_code_def split: option.split)

lemma app_GET_project_students:
  "app (GET_project_students pid) db =
     (if \<not> in_int64 pid then (\<lparr>status = 500, body = Some InternalServerError\<rparr>, db)
      else case select_Project db pid of
             None \<Rightarrow> (\<lparr>status = 404, body = Some (Detail ''Project not found'')\<rparr>, db)
           | Some P \<Rightarrow>
               if list_all json_Student
                    (filter (\<lambda>s. project_id s = Some (Project_id P)) (students db))
               then (\<lparr>status = 200,
                      body = Some (ProjectObj P
                               (Some (filter (\<lambda>s. project_id s = Some (Project_id P))
                                        (students db))))\<rparr>, db)
               else (\<lparr>status = 500, body = Some InternalServerError\<rparr>, db))"
  by (simp add: app_def get_db_def list_projects_with_students_def SessionLocal_def respond_def
      get_Project_def is_body_allowed_for_status_code_def Project_students_def
      split: option.split)

lemma app_POST_students:
  assumes "StudentBase_validate b = Inr u"
  shows "app (POST_students b) db =
     (case project_id_check (SessionLocal db) (project_id u) of
        Some e \<Rightarrow> (respond (POST_students b) (Inl e), db)
      | None \<Rightarrow>
          if email u \<in> email ` set (students db)
          then (\<lparr>status = 500, body = Some InternalServerError\<rparr>, db)
          else (\<lparr>status = 201,
                 body = Some (StudentObj (schema_Student
                          (stored (Student_of (next_rowid (map Student_id (students db))) u))))\<rparr>,
                db\<lparr>students := students db @
                    [stored (Student_of (next_rowid (map Student_id (students db))) u)]\<rparr>))"
  using assms
  by (simp add: app_def get_db_with_body get_db_create_student respond_def
      is_body_allowed_for_status_code_def split: option.split)

lemma app_PUT_student:
  assumes "StudentBase_validate b = Inr u" and "in_int64 sid" and "select_Student db sid = Some S"
  shows "app (PUT_student sid b) db =
     (case project_id_check (SessionLocal db) (project_id u) of
        Some e \<Rightarrow> (respond (PUT_student sid b) (Inl e), db)
      | None \<Rightarrow>
          if list_ex (\<lambda>r. Student_id r \<noteq> sid \<and> email r = email u) (students db)
          then (\<lparr>status = 500, body = Some InternalServerError\<rparr>, db)
          else (\<lparr>status = 200,
                 body = Some (StudentObj (schema_Student (stored (Student_of sid u))))\<rparr>,
                db\<lparr>students :=
                     map (\<lambda>r. if Student_id r = sid then stored (Student_of sid u) else r)
                       (students db)\<rparr>))"
  using assms(1)
  by (simp add: app_def get_db_with_body get_db_update_student[OF assms(2,3)] respond_def
      is_body_allowed_for_status_code_def split: option.split)

lemma app_PUT_student_None:
  assumes "StudentBase_validate b = Inr u" and "in_int64 sid" and "select_Student db sid = None"
  shows "app (PUT_student sid b) db =
     (\<lparr>status = 404, body = Some (Detail ''Student not found'')\<rparr>, db)"
  using assms by (simp add: app_def get_db_with_body get_db_None respond_def)

lemma respond_project_id_check:
  "project_id_check s ref = Some e \<Longrightarrow>
   respond req (Inl e) =
     (if in_int64 (the ref)
      then \<lparr>status = 400,
            body = Some (Detail (''Project '' @ str_int (the ref) @ '' does not exist''))\<rparr>
      else \<lparr>status = 500, body = Some InternalServerError\<rparr>)"
  by (auto simp: project_id_check_eq respond_def split: option.splits if_splits)

section \<open>The schema's defaults\<close>

lemma StudentBase_validate_defaults:
  assumes "StudentBase_validate b = Inr u"
  shows "(json_linkedin_profile b = None \<longrightarrow> linkedin_profile u = None)
    \<and> (json_about_you b = None \<longrightarrow> about_you u = None)
    \<and> (json_specialisation b = None \<longrightarrow> specialisation u = None)
    \<and> (json_cgpa b = None \<longrightarrow> cgpa u = None)
    \<and> (json_favourite_language b = None \<longrightarrow> favourite_language u = None)
    \<and> (json_favourite_framework b = None \<longrightarrow> favourite_framework u = None)
    \<and> (json_is_leader b = None \<longrightarrow> is_leader u = False)
    \<and> (json_project_id b = None \<longrightarrow> project_id u = None)"
proof -
  from assms have u: "u = \<lparr>name = name u, email = email u,
      linkedin_profile = field_default None (json_linkedin_profile b),
      about_you = field_default None (json_about_you b),
      specialisation = field_default None (json_specialisation b),
      cgpa = field_default None (json_cgpa b),
      favourite_language = field_default None (json_favourite_language b),
      favourite_framework = field_default None (json_favourite_framework b),
      is_leader = field_default False (json_is_leader b),
      project_id = field_default None (json_project_id b)\<rparr>"
    by (auto simp: StudentBase_validate_def split: option.splits)
  have "linkedin_profile u = field_default None (json_linkedin_profile b)"
    "about_you u = field_default None (json_about_you b)"
    "specialisation u = field_default None (json_specialisation b)"
    "cgpa u = field_default None (json_cgpa b)"
    "favourite_language u = field_default None (json_favourite_language b)"
    "favourite_framework u = field_default None (json_favourite_framework b)"
    "is_leader u = field_default False (json_is_leader b)"
    "project_id u = field_default None (json_project_id b)"
    by (subst u, simp)+
  then show ?thesis
    by (simp add: field_default_def)
qed

lemma is_GET_unchanged: "is_GET req \<Longrightarrow> snd (get_db (handler req) db) = db"
  by (cases req) (simp_all add: get_db_read)

section \<open>Floats that are not finite\<close>

lemma json_float_iff: "json_float x \<longleftrightarrow> x \<notin> {Infinity, Minus_Infinity, NaN}"
  by (cases x) simp_all

lemma json_Student_iff:
  "json_Student s \<longleftrightarrow> cgpa s \<notin> {Some Infinity, Some Minus_Infinity, Some NaN}"
  by (auto simp: json_Student_def json_float_iff split: option.splits)

lemma sql_real_eq: "sql_real x = (if x = Some NaN then None else x)"
  by (cases x) (auto simp: sql_real_def split: pyfloat.splits)

lemma schema_stored_finite:
  "cgpa r \<notin> {Some Infinity, Some Minus_Infinity, Some NaN} \<Longrightarrow> schema_Student (stored r) = r"
  by (auto simp: schema_Student_def stored_def json_Student_def sql_real_def json_float_iff
      split: option.splits pyfloat.splits)

lemma cgpa_Student_of [simp]: "cgpa (Student_of k u) = cgpa u"
  by (simp add: Student_of_def)

lemma fields_stored_Student_of:
  "Student_id (stored (Student_of k u)) = k"
  "name (stored (Student_of k u)) = name u"
  "email (stored (Student_of k u)) = email u"
  "linkedin_profile (stored (Student_of k u)) = linkedin_profile u"
  "about_you (stored (Student_of k u)) = about_you u"
  "specialisation (stored (Student_of k u)) = specialisation u"
  "cgpa (stored (Student_of k u)) = (if cgpa u = Some NaN then None else cgpa u)"
  "favourite_language (stored (Student_of k u)) = favourite_language u"
  "favourite_framework (stored (Student_of k u)) = favourite_framework u"
  "is_leader (stored (Student_of k u)) = is_leader u"
  "project_id (stored (Student_of k u)) = project_id u"
  by (simp_all add: stored_def Student_of_def sql_real_eq)


section \<open>The claims\<close>

text \<open>
  C1. When the lookup of project \<open>pid\<close> finds it, deleting it answers 204; every
  student that referenced it is still stored, with the same id and a null
  \<open>project_id\<close>, no student is removed and none references \<open>pid\<close> any more; the
  project row is gone, and reading the project by id afterwards answers 404. The flush writes each
  student by its primary key; with distinct student ids, as primary keys are, the
  students that referenced \<open>pid\<close> are the only rows that change.
\<close>

theorem delete_project_nulls_references:
  assumes "get_Project db pid = Inr (Some P)"
    and "app (DELETE_project pid) db = (resp, db')"
  shows "status resp = 204
    \<and> students db' =
        map (\<lambda>r. if Student_id r \<in> Student_id ` set (Project_students db P)
                  then r\<lparr>project_id := None\<rparr> else r) (students db)
    \<and> (distinct (map Student_id (students db)) \<longrightarrow>
         students db' =
           map (\<lambda>r. if project_id r = Some pid then r\<lparr>project_id := None\<rparr> else r)
             (students db))
    \<and> (\<forall>s \<in> set (Project_students db P). s\<lparr>project_id := None\<rparr> \<in> set (students db'))
    \<and> map Student_id (students db') = map Student_id (students db)
    \<and> (\<forall>s \<in> set (students db'). project_id s \<noteq> Some pid)
    \<and> projects db' = filter (\<lambda>r. Project_id r \<noteq> pid) (projects db)
    \<and> app (GET_project pid) db' =
        (\<lparr>status = 404, body = Some (Detail ''Project not found'')\<rparr>, db')"
proof -
  let ?ids = "Student_id ` set (Project_students db P)"
  let ?f = "\<lambda>r. if Student_id r \<in> ?ids then r\<lparr>project_id := None\<rparr> else r"
  from assms(1) have inr: "in_int64 pid" and sel: "select_Project db pid = Some P"
    by (simp_all add: get_Project_Inr_iff)
  have pid: "Project_id P = pid"
    using select_Project_SomeD[OF sel] by simp
  have resp: "resp = \<lparr>status = 204, body = None\<rparr>"
    and st: "students db' = map ?f (students db)"
    and pr: "projects db' = filter (\<lambda>r. Project_id r \<noteq> pid) (projects db)"
    using assms(2) unfolding app_DELETE_project[OF inr sel] by auto
  have nulled: "\<forall>s \<in> set (Project_students db P). s\<lparr>project_id := None\<rparr> \<in> set (students db')"
  proof
    fix s assume s: "s \<in> set (Project_students db P)"
    then have "s \<in> set (students db)" by (simp add: Project_students_def)
    then have "?f s \<in> set (students db')" unfolding st by simp
    with s show "s\<lparr>project_id := None\<rparr> \<in> set (students db')" by simp
  qed
  have exact: "students db' =
      map (\<lambda>r. if project_id r = Some pid then r\<lparr>project_id := None\<rparr> else r) (students db)"
    if d: "distinct (map Student_id (students db))"
  proof -
    have inj: "inj_on Student_id (set (students db))"
      using d by (simp add: distinct_map)
    have "(Student_id r \<in> ?ids) = (project_id r = Some pid)" if r: "r \<in> set (students db)" for r
    proof
      assume "Student_id r \<in> ?ids"
      then obtain s where s: "s \<in> set (students db)" "project_id s = Some pid"
        and e: "Student_id s = Student_id r"
        using pid by (auto simp: Project_students_def)
      from inj e s(1) r have "s = r" by (rule inj_onD)
      with s(2) show "project_id r = Some pid" by simp
    next
      assume "project_id r = Some pid"
      with r pid have "r \<in> set (Project_students db P)"
        by (simp add: Project_students_def)
      then show "Student_id r \<in> ?ids" by (rule imageI)
    qed
    then show ?thesis
      unfolding st by (intro map_cong refl) simp
  qed
  have ids: "map Student_id (students db') = map Student_id (students db)"
    unfolding st by simp
  have free: "\<forall>s \<in> set (students db'). project_id s \<noteq> Some pid"
    unfolding st using pid by (auto simp: Project_students_def)
  have "select_Project db' pid = None"
    unfolding select_Project_None_iff pr by auto
  then have gone: "app (GET_project pid) db' =
      (\<lparr>status = 404, body = Some (Detail ''Project not found'')\<rparr>, db')"
    using inr by (simp add: app_GET_project)
  show ?thesis
    using resp st exact nulled ids free pr gone by simp
qed

theorem delete_project_nulls_references_witness:
  "get_Project store_two_members 1 = Inr (Some (Project_of 1 project_alpha))
   \<and> distinct (map Student_id (students store_two_members))
   \<and> app (DELETE_project 1) store_two_members =
       (\<lparr>status = 204, body = None\<rparr>,
        \<lparr>projects = [Project_of 2 project_beta],
         students = [Student_of 1 (student_of_email ''a@x.com'' None),
                     Student_of 2 (student_of_email ''b@x.com'' (Some 2)),
                     Student_of 3 (student_of_email ''c@x.com'' None),
                     Student_of 4 (student_of_email ''d@x.com'' None)]\<rparr>)
   \<and> app (GET_project 1)
         \<lparr>projects = [Project_of 2 project_beta],
          students = [Student_of 1 (student_of_email ''a@x.com'' None),
                      Student_of 2 (student_of_email ''b@x.com'' (Some 2)),
                      Student_of 3 (student_of_email ''c@x.com'' None),
                      Student_of 4 (student_of_email ''d@x.com'' None)]\<rparr> =
       (\<lparr>status = 404, body = Some (Detail ''Project not found'')\<rparr>,
        \<lparr>projects = [Project_of 2 project_beta],
         students = [Student_of 1 (student_of_email ''a@x.com'' None),
                     Student_of 2 (student_of_email ''b@x.com'' (Some 2)),
                     Student_of 3 (student_of_email ''c@x.com'' None),
                     Student_of 4 (student_of_email ''d@x.com'' None)]\<rparr>)"
proof -
  have h1: "get_Project store_two_members 1 = Inr (Some (Project_of 1 project_alpha))"
    by (simp add: app_defs example_defs)
  have h2: "app (DELETE_project 1) store_two_members =
       (\<lparr>status = 204, body = None\<rparr>,
        \<lparr>projects = [Project_of 2 project_beta],
         students = [Student_of 1 (student_of_email ''a@x.com'' None),
                     Student_of 2 (student_of_email ''b@x.com'' (Some 2)),
                     Student_of 3 (student_of_email ''c@x.com'' None),
                     Student_of 4 (student_of_email ''d@x.com'' None)]\<rparr>)"
    by (simp add: app_defs example_defs)
  note t = delete_project_nulls_references[OF h1 h2]
  from t have h3: "app (GET_project 1)
         \<lparr>projects = [Project_of 2 project_beta],
          students = [Student_of 1 (student_of_email ''a@x.com'' None),
                      Student_of 2 (student_of_email ''b@x.com'' (Some 2)),
                      Student_of 3 (student_of_email ''c@x.com'' None),
                      Student_of 4 (student_of_email ''d@x.com'' None)]\<rparr> =
       (\<lparr>status = 404, body = Some (Detail ''Project not found'')\<rparr>,
        \<lparr>projects = [Project_of 2 project_beta],
         students = [Student_of 1 (student_of_email ''a@x.com'' None),
                     Student_of 2 (student_of_email ''b@x.com'' (Some 2)),
                     Student_of 3 (student_of_email ''c@x.com'' None),
                     Student_of 4 (student_of_email ''d@x.com'' None)]\<rparr>)"
    by (elim conjE)
  have h0: "distinct (map Student_id (students store_two_members))"
    by (simp add: example_defs)
  show ?thesis
    by (intro conjI h1 h0 h2 h3)
qed

text \<open>
  C2. Every request keeps referential integrity: if the foreign key of every student
  is null or the id of a stored project before the request, it is so after it,
  whatever the request and its outcome. Hence it holds after any sequence of
  requests that starts from the empty store.
\<close>

theorem referential_integrity_invariant:
  "(ref_integrity db \<longrightarrow> ref_integrity (snd (app req db)))
   \<and> ref_integrity (run reqs empty_store)"
  by (simp add: ref_integrity_app ref_integrity_run ref_integrity_empty)

theorem referential_integrity_invariant_witness:
  "ref_integrity store_two_members
   \<and> ref_integrity (snd (app (DELETE_project 1) store_two_members))
   \<and> run requests_join_then_delete empty_store =
       \<lparr>projects = [Project_of 2 project_beta],
        students = [Student_of 1 (student_of_email ''a@x.com'' None),
                    Student_of 2 (student_of_email ''b@x.com'' (Some 2))]\<rparr>
   \<and> ref_integrity (run requests_join_then_delete empty_store)"
proof -
  have h1: "ref_integrity store_two_members"
    by (simp add: ref_integrity_def example_defs)
  have h2: "run requests_join_then_delete empty_store =
       \<lparr>projects = [Project_of 2 project_beta],
        students = [Student_of 1 (student_of_email ''a@x.com'' None),
                    Student_of 2 (student_of_email ''b@x.com'' (Some 2))]\<rparr>"
    by (simp add: body_defs app_defs example_defs empty_store_def)
  note t = referential_integrity_invariant
             [of store_two_members "DELETE_project 1" requests_join_then_delete]
  from t h1 have h3: "ref_integrity (snd (app (DELETE_project 1) store_two_members))"
    by (elim conjE impE)
  from t have h4: "ref_integrity (run requests_join_then_delete empty_store)"
    by (elim conjE)
  show ?thesis
    by (intro conjI h1 h2 h3 h4)
qed

text \<open>
  C3, as stated, fails for an id the storage cannot hold: \<open>2 ^ 63\<close> is the id of no
  stored project, yet creating a student with that \<open>project_id\<close> is answered 500,
  not 400: the lookup of the project raises before it finds anything. No row is
  added.
\<close>

theorem create_student_rejects_unknown_project_counterexample:
  "StudentBase_validate
      (StudentBody_of (student_of_email ''e@x.com'' (Some 9223372036854775808)))
     = Inr (student_of_email ''e@x.com'' (Some 9223372036854775808))
   \<and> project_id (student_of_email ''e@x.com'' (Some 9223372036854775808))
       = Some 9223372036854775808
   \<and> 9223372036854775808 \<notin> Project_id ` set (projects store_two_members)
   \<and> app (POST_students
             (StudentBody_of (student_of_email ''e@x.com'' (Some 9223372036854775808))))
         store_two_members =
       (\<lparr>status = 500, body = Some InternalServerError\<rparr>, store_two_members)
   \<and> status (fst (app (POST_students
             (StudentBody_of (student_of_email ''e@x.com'' (Some 9223372036854775808))))
         store_two_members)) \<noteq> 400"
proof -
  have h1: "StudentBase_validate
      (StudentBody_of (student_of_email ''e@x.com'' (Some 9223372036854775808)))
     = Inr (student_of_email ''e@x.com'' (Some 9223372036854775808))"
    by (simp add: StudentBase_validate_def StudentBody_of_def field_default_def student_of_email_def)
  have h2: "project_id (student_of_email ''e@x.com'' (Some 9223372036854775808))
       = Some 9223372036854775808"
    by (simp add: student_of_email_def)
  have h3: "9223372036854775808 \<notin> Project_id ` set (projects store_two_members)"
    by (simp add: example_defs)
  have h4: "app (POST_students
             (StudentBody_of (student_of_email ''e@x.com'' (Some 9223372036854775808))))
         store_two_members =
       (\<lparr>status = 500, body = Some InternalServerError\<rparr>, store_two_members)"
    by (simp add: app_defs example_defs body_defs)
  have h5: "status (fst (app (POST_students
             (StudentBody_of (student_of_email ''e@x.com'' (Some 9223372036854775808))))
         store_two_members)) \<noteq> 400"
    by (simp add: h4)
  show ?thesis
    by (intro conjI h1 h2 h3 h4 h5)
qed

text \<open>
  C3, amended. A create-student request whose body passes validation and whose
  \<open>project_id\<close> is non-null, within the signed 64-bit range of the storage's
  integers, and not the id of any stored project answers 400, the detail being
  \<^verbatim>\<open>Project <id> does not exist\<close> with the offending id in decimal, and the store
  after the request is the store before it: no student row is added.
\<close>

theorem create_student_rejects_unknown_project:
  assumes "StudentBase_validate b = Inr student"
    and "project_id student = Some pid"
    and "- (2 ^ 63) \<le> pid \<and> pid < 2 ^ 63"
    and "pid \<notin> Project_id ` set (projects db)"
  shows "app (POST_students b) db =
     (\<lparr>status = 400, body = Some (Detail (''Project '' @ str_int pid @ '' does not exist''))\<rparr>, db)"
proof -
  have "project_id_check (SessionLocal db) (project_id student)
      = Some (HTTPException 400 (''Project '' @ str_int pid @ '' does not exist''))"
    using assms(2,3,4) by (simp add: project_id_check_eq in_int64_def SessionLocal_def)
  then show ?thesis
    by (simp add: app_POST_students[OF assms(1)] respond_def)
qed

theorem create_student_rejects_unknown_project_witness:
  "StudentBase_validate (StudentBody_of (student_of_email ''e@x.com'' (Some 7)))
     = Inr (student_of_email ''e@x.com'' (Some 7))
   \<and> project_id (student_of_email ''e@x.com'' (Some 7)) = Some 7
   \<and> - (2 ^ 63) \<le> (7 :: int) \<and> (7 :: int) < 2 ^ 63
   \<and> 7 \<notin> Project_id ` set (projects store_two_members)
   \<and> app (POST_students (StudentBody_of (student_of_email ''e@x.com'' (Some 7)))) store_two_members =
       (\<lparr>status = 400, body = Some (Detail ''Project 7 does not exist'')\<rparr>, store_two_members)"
proof -
  have h1: "StudentBase_validate (StudentBody_of (student_of_email ''e@x.com'' (Some 7)))
     = Inr (student_of_email ''e@x.com'' (Some 7))"
    by (simp add: StudentBase_validate_def StudentBody_of_def field_default_def student_of_email_def)
  have h2: "project_id (student_of_email ''e@x.com'' (Some 7)) = Some 7"
    by (simp add: student_of_email_def)
  have h3: "- (2 ^ 63) \<le> (7 :: int) \<and> (7 :: int) < 2 ^ 63"
    by simp
  have h4: "7 \<notin> Project_id ` set (projects store_two_members)"
    by (simp add: example_defs)
  have s: "str_int 7 = ''7''"
    by (simp add: str_int_def str_nat.simps digit_char_def)
  have h5: "app (POST_students (StudentBody_of (student_of_email ''e@x.com'' (Some 7)))) store_two_members =
       (\<lparr>status = 400, body = Some (Detail ''Project 7 does not exist'')\<rparr>, store_two_members)"
    using create_student_rejects_unknown_project[OF h1 h2 h3 h4] by (simp add: s)
  show ?thesis
    by (intro conjI h1 h2 h3[THEN conjunct1] h3[THEN conjunct2] h4 h5)
qed

text \<open>
  C4, as stated, fails in two ways. A payload that passes validation need not be
  accepted: the update of student 1 with a \<open>project_id\<close> that no project has is
  answered 400 and the stored row keeps its name. And an accepted payload is not
  stored as sent in every column: a \<open>cgpa\<close> that is NaN is answered 200 and stored
  as null.
\<close>

theorem update_student_full_replacement_counterexample:
  "StudentBase_validate (StudentBody_of ((student_bare ''B'' ''a@x.com'')\<lparr>project_id := Some 7\<rparr>))
     = Inr ((student_bare ''B'' ''a@x.com'')\<lparr>project_id := Some 7\<rparr>)
   \<and> status (fst (app (PUT_student 1
         (StudentBody_of ((student_bare ''B'' ''a@x.com'')\<lparr>project_id := Some 7\<rparr>)))
         store_two_members)) = 400
   \<and> map name (students (snd (app (PUT_student 1
         (StudentBody_of ((student_bare ''B'' ''a@x.com'')\<lparr>project_id := Some 7\<rparr>)))
         store_two_members))) = [''A'', ''A'', ''A'', ''A'']
   \<and> StudentBase_validate (StudentBody_of (student_with_cgpa ''a@x.com'' (Some 1) (Some NaN)))
     = Inr (student_with_cgpa ''a@x.com'' (Some 1) (Some NaN))
   \<and> cgpa (student_with_cgpa ''a@x.com'' (Some 1) (Some NaN)) = Some NaN
   \<and> status (fst (app (PUT_student 1
         (StudentBody_of (student_with_cgpa ''a@x.com'' (Some 1) (Some NaN))))
         store_two_members)) = 200
   \<and> map cgpa (students (snd (app (PUT_student 1
         (StudentBody_of (student_with_cgpa ''a@x.com'' (Some 1) (Some NaN))))
         store_two_members)))
       = [None, Some (Finite 3.5), Some (Finite 3.5), Some (Finite 3.5)]"
proof -
  have h1: "StudentBase_validate
      (StudentBody_of ((student_bare ''B'' ''a@x.com'')\<lparr>project_id := Some 7\<rparr>))
     = Inr ((student_bare ''B'' ''a@x.com'')\<lparr>project_id := Some 7\<rparr>)"
    by (simp add: StudentBase_validate_def StudentBody_of_def field_default_def student_bare_def)
  have h2: "status (fst (app (PUT_student 1
         (StudentBody_of ((student_bare ''B'' ''a@x.com'')\<lparr>project_id := Some 7\<rparr>)))
         store_two_members)) = 400"
    by (simp add: app_defs example_defs body_defs)
  have h3: "map name (students (snd (app (PUT_student 1
         (StudentBody_of ((student_bare ''B'' ''a@x.com'')\<lparr>project_id := Some 7\<rparr>)))
         store_two_members))) = [''A'', ''A'', ''A'', ''A'']"
    by (simp add: app_defs example_defs body_defs)
  have h4: "StudentBase_validate (StudentBody_of (student_with_cgpa ''a@x.com'' (Some 1) (Some NaN)))
     = Inr (student_with_cgpa ''a@x.com'' (Some 1) (Some NaN))"
    by (simp add: StudentBase_validate_def StudentBody_of_def field_default_def
        student_with_cgpa_def student_of_email_def)
  have h5: "cgpa (student_with_cgpa ''a@x.com'' (Some 1) (Some NaN)) = Some NaN"
    by (simp add: student_with_cgpa_def)
  have h6: "status (fst (app (PUT_student 1
         (StudentBody_of (student_with_cgpa ''a@x.com'' (Some 1) (Some NaN))))
         store_two_members)) = 200"
    by (simp add: app_defs example_defs body_defs)
  have h7: "map cgpa (students (snd (app (PUT_student 1
         (StudentBody_of (student_with_cgpa ''a@x.com'' (Some 1) (Some NaN))))
         store_two_members)))
       = [None, Some (Finite 3.5), Some (Finite 3.5), Some (Finite 3.5)]"
    by (simp add: app_defs example_defs body_defs)
  show ?thesis
    by (intro conjI h1 h2 h3 h4 h5 h6 h7)
qed

text \<open>
  C4, amended. Updating a student replaces the whole row. For a stored student and
  a body that passes validation, the update is accepted (answered 200) exactly
  when the payload's \<open>project_id\<close> is null or the id of a stored project and no
  other student has the payload's email. Then the stored row has the id it had and,
  column by column, the payload's value, except that a \<open>cgpa\<close> that is NaN is
  stored as null; no other row changes. A column the body leaves out holds its
  schema default afterwards (null, and false for \<open>is_leader\<close>), not the value
  stored before.
\<close>

theorem update_student_full_replacement:
  assumes "StudentBase_validate b = Inr updated"
    and "get_Student db sid = Inr (Some old)"
    and "app (PUT_student sid b) db = (resp, db')"
  shows "(status resp = 200 \<longleftrightarrow>
            (\<forall>pid. project_id updated = Some pid \<longrightarrow>
                   - (2 ^ 63) \<le> pid \<and> pid < 2 ^ 63 \<and> pid \<in> Project_id ` set (projects db))
            \<and> \<not> list_ex (\<lambda>r. Student_id r \<noteq> sid \<and> email r = email updated) (students db))
    \<and> (status resp = 200 \<longrightarrow>
          (\<exists>row. get_Student db' sid = Inr (Some row)
             \<and> Student_id row = sid
             \<and> name row = name updated
             \<and> email row = email updated
             \<and> linkedin_profile row = linkedin_profile updated
             \<and> about_you row = about_you updated
             \<and> specialisation row = specialisation updated
             \<and> cgpa row = (if cgpa updated = Some NaN then None else cgpa updated)
             \<and> favourite_language row = favourite_language updated
             \<and> favourite_framework row = favourite_framework updated
             \<and> is_leader row = is_leader updated
             \<and> project_id row = project_id updated
             \<and> (json_linkedin_profile b = None \<longrightarrow> linkedin_profile row = None)
             \<and> (json_about_you b = None \<longrightarrow> about_you row = None)
             \<and> (json_specialisation b = None \<longrightarrow> specialisation row = None)
             \<and> (json_cgpa b = None \<longrightarrow> cgpa row = None)
             \<and> (json_favourite_language b = None \<longrightarrow> favourite_language row = None)
             \<and> (json_favourite_framework b = None \<longrightarrow> favourite_framework row = None)
             \<and> (json_is_leader b = None \<longrightarrow> is_leader row = False)
             \<and> (json_project_id b = None \<longrightarrow> project_id row = None)
             \<and> students db' = map (\<lambda>r. if Student_id r = sid then row else r) (students db)
             \<and> projects db' = projects db))"
proof -
  let ?dup = "list_ex (\<lambda>r. Student_id r \<noteq> sid \<and> email r = email updated) (students db)"
  let ?row = "stored (Student_of sid updated)"
  let ?new = "map (\<lambda>r. if Student_id r = sid then ?row else r) (students db)"
  let ?ok = "(\<forall>pid. project_id updated = Some pid \<longrightarrow>
                   - (2 ^ 63) \<le> pid \<and> pid < 2 ^ 63 \<and> pid \<in> Project_id ` set (projects db))
            \<and> \<not> ?dup"
  from assms(2) have inr: "in_int64 sid" and sel: "select_Student db sid = Some old"
    by (simp_all add: get_Student_Inr_iff)
  note eq = assms(3)[unfolded app_PUT_student[OF assms(1) inr sel]]
  have chk_iff: "project_id_check (SessionLocal db) (project_id updated) = None \<longleftrightarrow>
      (\<forall>pid. project_id updated = Some pid \<longrightarrow>
             - (2 ^ 63) \<le> pid \<and> pid < 2 ^ 63 \<and> pid \<in> Project_id ` set (projects db))"
    by (simp add: project_id_check_None_iff SessionLocal_def in_int64_def)
  have found: "get_Student (db\<lparr>students := ?new\<rparr>) sid = Inr (Some ?row)"
    using sel inr unfolding get_Student_def select_Student_def
    by (simp add: find_map_replace[where x=old])
  note dflt = StudentBase_validate_defaults[OF assms(1)]
  show ?thesis
  proof (cases "project_id_check (SessionLocal db) (project_id updated)")
    case (Some e)
    with eq have r: "resp = respond (PUT_student sid b) (Inl e)"
      by simp
    have "e \<in> request_errors"
      using Some by (rule project_id_check_error)
    then have "400 \<le> status resp"
      unfolding r by (rule status_request_error)
    then have "status resp \<noteq> 200" by simp
    moreover have "\<not> ?ok" using Some chk_iff by simp
    ultimately show ?thesis by simp
  next
    case None
    show ?thesis
    proof (cases "?dup")
      case True
      with eq None have "resp = \<lparr>status = 500, body = Some InternalServerError\<rparr>"
        by simp
      then have "status resp \<noteq> 200" by simp
      moreover have "\<not> ?ok" using True by blast
      ultimately show ?thesis by simp
    next
      case False
      with eq None have r: "resp = \<lparr>status = 200,
          body = Some (StudentObj (schema_Student ?row))\<rparr>"
        and d: "db' = db\<lparr>students := ?new\<rparr>"
        by simp_all
      have ok: "?ok" using False None chk_iff by blast
      have 0: "status resp = 200" unfolding r by simp
      have 1: "get_Student db' sid = Inr (Some ?row)"
        unfolding d by (rule found)
      have 3: "students db' = ?new" unfolding d by simp
      have 4: "projects db' = projects db" unfolding d by simp
      note f = fields_stored_Student_of[of sid updated]
      have c: "json_cgpa b = None \<longrightarrow> cgpa ?row = None"
        using dflt by (simp add: sql_real_eq)
      have ex: "\<exists>row. get_Student db' sid = Inr (Some row)
             \<and> Student_id row = sid
             \<and> name row = name updated
             \<and> email row = email updated
             \<and> linkedin_profile row = linkedin_profile updated
             \<and> about_you row = about_you updated
             \<and> specialisation row = specialisation updated
             \<and> cgpa row = (if cgpa updated = Some NaN then None else cgpa updated)
             \<and> favourite_language row = favourite_language updated
             \<and> favourite_framework row = favourite_framework updated
             \<and> is_leader row = is_leader updated
             \<and> project_id row = project_id updated
             \<and> (json_linkedin_profile b = None \<longrightarrow> linkedin_profile row = None)
             \<and> (json_about_you b = None \<longrightarrow> about_you row = None)
             \<and> (json_specialisation b = None \<longrightarrow> specialisation row = None)
             \<and> (json_cgpa b = None \<longrightarrow> cgpa row = None)
             \<and> (json_favourite_language b = None \<longrightarrow> favourite_language row = None)
             \<and> (json_favourite_framework b = None \<longrightarrow> favourite_framework row = None)
             \<and> (json_is_leader b = None \<longrightarrow> is_leader row = False)
             \<and> (json_project_id b = None \<longrightarrow> project_id row = None)
             \<and> students db' = map (\<lambda>r. if Student_id r = sid then row else r) (students db)
             \<and> projects db' = projects db"
      proof (rule exI[of _ ?row], intro conjI)
        show "get_Student db' sid = Inr (Some ?row)" by (rule 1)
        show "Student_id ?row = sid" by (rule f)
        show "name ?row = name updated" by (rule f)
        show "email ?row = email updated" by (rule f)
        show "linkedin_profile ?row = linkedin_profile updated" by (rule f)
        show "about_you ?row = about_you updated" by (rule f)
        show "specialisation ?row = specialisation updated" by (rule f)
        show "cgpa ?row = (if cgpa updated = Some NaN then None else cgpa updated)" by (rule f)
        show "favourite_language ?row = favourite_language updated" by (rule f)
        show "favourite_framework ?row = favourite_framework updated" by (rule f)
        show "is_leader ?row = is_leader updated" by (rule f)
        show "project_id ?row = project_id updated" by (rule f)
        show "json_linkedin_profile b = None \<longrightarrow> linkedin_profile ?row = None"
          using dflt by (simp add: f(4))
        show "json_about_you b = None \<longrightarrow> about_you ?row = None"
          using dflt by (simp add: f(5))
        show "json_specialisation b = None \<longrightarrow> specialisation ?row = None"
          using dflt by (simp add: f(6))
        show "json_cgpa b = None \<longrightarrow> cgpa ?row = None" by (rule c)
        show "json_favourite_language b = None \<longrightarrow> favourite_language ?row = None"
          using dflt by (simp add: f(8))
        show "json_favourite_framework b = None \<longrightarrow> favourite_framework ?row = None"
          using dflt by (simp add: f(9))
        show "json_is_leader b = None \<longrightarrow> is_leader ?row = False"
          using dflt by (simp add: f(10))
        show "json_project_id b = None \<longrightarrow> project_id ?row = None"
          using dflt by (simp add: f(11))
        show "students db' = ?new" by (rule 3)
        show "projects db' = projects db" by (rule 4)
      qed
      show ?thesis
        using 0 ok ex by blast
    qed
  qed
qed

theorem update_student_full_replacement_witness:
  "StudentBase_validate (StudentBody_required ''B'' ''a@x.com'') = Inr (student_bare ''B'' ''a@x.com'')
   \<and> get_Student store_two_members 1
       = Inr (Some (Student_of 1 (student_of_email ''a@x.com'' (Some 1))))
   \<and> cgpa (Student_of 1 (student_of_email ''a@x.com'' (Some 1))) = Some (Finite 3.5)
   \<and> app (PUT_student 1 (StudentBody_required ''B'' ''a@x.com'')) store_two_members =
       (\<lparr>status = 200, body = Some (StudentObj (Student_of 1 (student_bare ''B'' ''a@x.com'')))\<rparr>,
        \<lparr>projects = [Project_of 1 project_alpha, Project_of 2 project_beta],
         students = [Student_of 1 (student_bare ''B'' ''a@x.com''),
                     Student_of 2 (student_of_email ''b@x.com'' (Some 2)),
                     Student_of 3 (student_of_email ''c@x.com'' (Some 1)),
                     Student_of 4 (student_of_email ''d@x.com'' None)]\<rparr>)
   \<and> json_cgpa (StudentBody_required ''B'' ''a@x.com'') = None
   \<and> (\<exists>row. get_Student
         \<lparr>projects = [Project_of 1 project_alpha, Project_of 2 project_beta],
          students = [Student_of 1 (student_bare ''B'' ''a@x.com''),
                      Student_of 2 (student_of_email ''b@x.com'' (Some 2)),
                      Student_of 3 (student_of_email ''c@x.com'' (Some 1)),
                      Student_of 4 (student_of_email ''d@x.com'' None)]\<rparr> 1
           = Inr (Some row)
         \<and> name row = ''B'' \<and> email row = ''a@x.com'' \<and> cgpa row = None
         \<and> project_id row = None)"
proof -
  let ?db1 = "\<lparr>projects = [Project_of 1 project_alpha, Project_of 2 project_beta],
         students = [Student_of 1 (student_bare ''B'' ''a@x.com''),
                     Student_of 2 (student_of_email ''b@x.com'' (Some 2)),
                     Student_of 3 (student_of_email ''c@x.com'' (Some 1)),
                     Student_of 4 (student_of_email ''d@x.com'' None)]\<rparr>"
  let ?resp = "\<lparr>status = 200,
      body = Some (StudentObj (Student_of 1 (student_bare ''B'' ''a@x.com'')))\<rparr>"
  have h1: "StudentBase_validate (StudentBody_required ''B'' ''a@x.com'')
      = Inr (student_bare ''B'' ''a@x.com'')"
    by (simp add: StudentBase_validate_def StudentBody_required_def field_default_def
        student_bare_def)
  have h2: "get_Student store_two_members 1
      = Inr (Some (Student_of 1 (student_of_email ''a@x.com'' (Some 1))))"
    by (simp add: get_Student_def select_Student_def in_int64_def example_defs)
  have h3: "app (PUT_student 1 (StudentBody_required ''B'' ''a@x.com'')) store_two_members =
       (?resp, ?db1)"
    by (simp add: app_defs example_defs body_defs)
  have h4: "cgpa (Student_of 1 (student_of_email ''a@x.com'' (Some 1))) = Some (Finite 3.5)"
    by (simp add: example_defs)
  have h5: "json_cgpa (StudentBody_required ''B'' ''a@x.com'') = None"
    by (simp add: StudentBody_required_def)
  have h6: "json_project_id (StudentBody_required ''B'' ''a@x.com'') = None"
    by (simp add: StudentBody_required_def)
  have s: "status ?resp = 200"
    by simp
  note t = update_student_full_replacement[OF h1 h2 h3, THEN conjunct2, rule_format, OF s]
  from t obtain row where g: "get_Student ?db1 1 = Inr (Some row)"
    and n: "name row = name (student_bare ''B'' ''a@x.com'')"
    and e: "email row = email (student_bare ''B'' ''a@x.com'')"
    and c: "json_cgpa (StudentBody_required ''B'' ''a@x.com'') = None \<longrightarrow> cgpa row = None"
    and p: "json_project_id (StudentBody_required ''B'' ''a@x.com'') = None \<longrightarrow>
            project_id row = None"
    by (elim exE conjE)
  have n': "name row = ''B''" using n by (simp add: student_bare_def)
  have e': "email row = ''a@x.com''" using e by (simp add: student_bare_def)
  have c': "cgpa row = None" using c h5 by (rule mp)
  have p': "project_id row = None" using p h6 by (rule mp)
  have r: "\<exists>row. get_Student ?db1 1 = Inr (Some row)
         \<and> name row = ''B'' \<and> email row = ''a@x.com'' \<and> cgpa row = None
         \<and> project_id row = None"
    by (intro exI[of _ row] conjI g n' e' c' p')
  show ?thesis
    by (intro conjI h1 h2 h4 h3 h5 r)
qed



text \<open>
  C6, as stated, fails: student 2 exists and the payload's \<open>project_id\<close> is null, but
  its email is the one student 1 has, so the commit breaks the unique index and the
  answer is 500, with the store unchanged.
\<close>

theorem update_student_null_project_counterexample:
  "StudentBase_validate (StudentBody_of (student_of_email ''a@x.com'' None))
     = Inr (student_of_email ''a@x.com'' None)
   \<and> project_id (student_of_email ''a@x.com'' None) = None
   \<and> get_Student store_two_members 2
       = Inr (Some (Student_of 2 (student_of_email ''b@x.com'' (Some 2))))
   \<and> app (PUT_student 2 (StudentBody_of (student_of_email ''a@x.com'' None))) store_two_members =
       (\<lparr>status = 500, body = Some InternalServerError\<rparr>, store_two_members)
   \<and> status (fst (app (PUT_student 2 (StudentBody_of (student_of_email ''a@x.com'' None)))
                    store_two_members)) \<noteq> 200"
proof -
  have h1: "StudentBase_validate (StudentBody_of (student_of_email ''a@x.com'' None))
     = Inr (student_of_email ''a@x.com'' None)"
    by (simp add: StudentBase_validate_def StudentBody_of_def field_default_def student_of_email_def)
  have h2: "project_id (student_of_email ''a@x.com'' None) = None"
    by (simp add: student_of_email_def)
  have h3: "get_Student store_two_members 2
      = Inr (Some (Student_of 2 (student_of_email ''b@x.com'' (Some 2))))"
    by (simp add: get_Student_def select_Student_def in_int64_def example_defs)
  have h4: "app (PUT_student 2 (StudentBody_of (student_of_email ''a@x.com'' None))) store_two_members =
       (\<lparr>status = 500, body = Some InternalServerError\<rparr>, store_two_members)"
    by (simp add: app_defs example_defs body_defs)
  have h5: "status (fst (app (PUT_student 2 (StudentBody_of (student_of_email ''a@x.com'' None)))
                    store_two_members)) \<noteq> 200"
    by (simp add: h4)
  show ?thesis
    by (intro conjI h1 h2 h3 h4 h5)
qed

text \<open>
  C6, amended. For a stored student, whatever project it belonged to, an update whose
  validated payload has a null \<open>project_id\<close> never answers 400, the reference check
  being made only for a non-null \<open>project_id\<close>; and it answers 200 with the replaced
  row whenever no other student has the payload's email. The row in the answer is
  the one read back from the storage and written through the schema: it is the
  payload with the student's id when the payload's \<open>cgpa\<close> is null or finite.
\<close>

theorem update_student_null_project:
  assumes "StudentBase_validate b = Inr updated"
    and "project_id updated = None"
    and "get_Student db sid = Inr (Some old)"
  shows "status (fst (app (PUT_student sid b) db)) \<noteq> 400
    \<and> (\<not> list_ex (\<lambda>r. Student_id r \<noteq> sid \<and> email r = email updated) (students db) \<longrightarrow>
         fst (app (PUT_student sid b) db) =
           \<lparr>status = 200,
            body = Some (StudentObj (schema_Student (stored (Student_of sid updated))))\<rparr>)
    \<and> (\<not> list_ex (\<lambda>r. Student_id r \<noteq> sid \<and> email r = email updated) (students db)
         \<and> cgpa updated \<notin> {Some Infinity, Some Minus_Infinity, Some NaN} \<longrightarrow>
         fst (app (PUT_student sid b) db) =
           \<lparr>status = 200, body = Some (StudentObj (Student_of sid updated))\<rparr>)"
proof -
  from assms(3) have inr: "in_int64 sid" and sel: "select_Student db sid = Some old"
    by (simp_all add: get_Student_Inr_iff)
  have chk: "project_id_check (SessionLocal db) (project_id updated) = None"
    using assms(2) by (simp add: project_id_check_def)
  note eq = app_PUT_student[OF assms(1) inr sel, unfolded chk option.case]
  have 1: "status (fst (app (PUT_student sid b) db)) \<noteq> 400"
    unfolding eq by simp
  have 2: "\<not> list_ex (\<lambda>r. Student_id r \<noteq> sid \<and> email r = email updated) (students db) \<longrightarrow>
         fst (app (PUT_student sid b) db) =
           \<lparr>status = 200,
            body = Some (StudentObj (schema_Student (stored (Student_of sid updated))))\<rparr>"
    unfolding eq by simp
  have 3: "\<not> list_ex (\<lambda>r. Student_id r \<noteq> sid \<and> email r = email updated) (students db)
         \<and> cgpa updated \<notin> {Some Infinity, Some Minus_Infinity, Some NaN} \<longrightarrow>
         fst (app (PUT_student sid b) db) =
           \<lparr>status = 200, body = Some (StudentObj (Student_of sid updated))\<rparr>"
  proof
    assume a: "\<not> list_ex (\<lambda>r. Student_id r \<noteq> sid \<and> email r = email updated) (students db)
         \<and> cgpa updated \<notin> {Some Infinity, Some Minus_Infinity, Some NaN}"
    then have "cgpa (Student_of sid updated) \<notin> {Some Infinity, Some Minus_Infinity, Some NaN}"
      by simp
    then have "schema_Student (stored (Student_of sid updated)) = Student_of sid updated"
      by (rule schema_stored_finite)
    with 2 a show "fst (app (PUT_student sid b) db) =
           \<lparr>status = 200, body = Some (StudentObj (Student_of sid updated))\<rparr>"
      by simp
  qed
  show ?thesis
    by (intro conjI 1 2 3)
qed

theorem update_student_null_project_witness:
  "StudentBase_validate (StudentBody_of (student_of_email ''a@x.com'' None))
     = Inr (student_of_email ''a@x.com'' None)
   \<and> project_id (student_of_email ''a@x.com'' None) = None
   \<and> get_Student store_two_members 1
       = Inr (Some (Student_of 1 (student_of_email ''a@x.com'' (Some 1))))
   \<and> \<not> list_ex (\<lambda>r. Student_id r \<noteq> 1 \<and> email r = email (student_of_email ''a@x.com'' None))
          (students store_two_members)
   \<and> cgpa (student_of_email ''a@x.com'' None) = Some (Finite 3.5)
   \<and> fst (app (PUT_student 1 (StudentBody_of (student_of_email ''a@x.com'' None))) store_two_members) =
       \<lparr>status = 200, body = Some (StudentObj (Student_of 1 (student_of_email ''a@x.com'' None)))\<rparr>"
proof -
  have h1: "StudentBase_validate (StudentBody_of (student_of_email ''a@x.com'' None))
     = Inr (student_of_email ''a@x.com'' None)"
    by (simp add: StudentBase_validate_def StudentBody_of_def field_default_def student_of_email_def)
  have h2: "project_id (student_of_email ''a@x.com'' None) = None"
    by (simp add: student_of_email_def)
  have h3: "get_Student store_two_members 1
      = Inr (Some (Student_of 1 (student_of_email ''a@x.com'' (Some 1))))"
    by (simp add: get_Student_def select_Student_def in_int64_def example_defs)
  have h4: "\<not> list_ex (\<lambda>r. Student_id r \<noteq> 1 \<and> email r = email (student_of_email ''a@x.com'' None))
          (students store_two_members)"
    by (simp add: example_defs)
  have h5: "cgpa (student_of_email ''a@x.com'' None) = Some (Finite 3.5)"
    by (simp add: student_of_email_def)
  then have h6: "cgpa (student_of_email ''a@x.com'' None)
      \<notin> {Some Infinity, Some Minus_Infinity, Some NaN :: real pyfloat option}"
    by simp
  from update_student_null_project[OF h1 h2 h3] h4 h6
  have r: "fst (app (PUT_student 1 (StudentBody_of (student_of_email ''a@x.com'' None))) store_two_members) =
       \<lparr>status = 200, body = Some (StudentObj (Student_of 1 (student_of_email ''a@x.com'' None)))\<rparr>"
    by blast
  show ?thesis
    by (intro conjI h1 h2 h3 h4 h5 r)
qed

text \<open>
  C7, as stated, fails in two ways. For an id the storage cannot hold, \<open>2 ^ 63\<close>,
  which is the id of no stored project, the answer is 500, not 404. And for a
  stored project one of whose students has an infinite \<open>cgpa\<close>, the answer is 500,
  not the project with its students: the route has no \<^verbatim>\<open>response_model\<close> and the
  JSON encoder refuses the value.
\<close>

theorem project_with_students_counterexample:
  "9223372036854775808 \<notin> Project_id ` set (projects store_two_members)
   \<and> app (GET_project_students 9223372036854775808) store_two_members =
       (\<lparr>status = 500, body = Some InternalServerError\<rparr>, store_two_members)
   \<and> 1 \<in> Project_id ` set (projects store_infinite_member)
   \<and> students store_infinite_member =
       [Student_of 1 (student_with_cgpa ''a@x.com'' (Some 1) (Some Infinity))]
   \<and> app (GET_project_students 1) store_infinite_member =
       (\<lparr>status = 500, body = Some InternalServerError\<rparr>, store_infinite_member)"
proof -
  have h1: "9223372036854775808 \<notin> Project_id ` set (projects store_two_members)"
    by (simp add: example_defs)
  have h2: "app (GET_project_students 9223372036854775808) store_two_members =
       (\<lparr>status = 500, body = Some InternalServerError\<rparr>, store_two_members)"
    by (simp add: app_defs example_defs)
  have h3: "1 \<in> Project_id ` set (projects store_infinite_member)"
    by (simp add: example_defs)
  have h4: "students store_infinite_member =
       [Student_of 1 (student_with_cgpa ''a@x.com'' (Some 1) (Some Infinity))]"
    by (simp add: store_infinite_member_def)
  have h5: "app (GET_project_students 1) store_infinite_member =
       (\<lparr>status = 500, body = Some InternalServerError\<rparr>, store_infinite_member)"
    by (simp add: app_defs example_defs)
  show ?thesis
    by (intro conjI h1 h2 h3 h4 h5)
qed

text \<open>
  C7, amended. The route \<^verbatim>\<open>/project_students/{id}\<close>, for an id within the signed
  64-bit range of the storage's integers: when the id is that of a stored project
  and no student of the project has a \<open>cgpa\<close> that is infinite or NaN, the answer
  is 200 with that project and, loaded in the returned object, the list of all
  students whose \<open>project_id\<close> is the id; when no student has it, the list is empty
  and the answer is still 200; when no project has the id, the answer is 404. The
  store is the same afterwards in each case.
\<close>

theorem project_with_students:
  "(get_Project db pid = Inr (Some P)
      \<and> (\<forall>s \<in> set (students db). project_id s = Some pid \<longrightarrow>
            cgpa s \<notin> {Some Infinity, Some Minus_Infinity, Some NaN}) \<longrightarrow>
      Project_id P = pid \<and> P \<in> set (projects db) \<and>
      app (GET_project_students pid) db =
        (\<lparr>status = 200,
          body = Some (ProjectObj P (Some (filter (\<lambda>s. project_id s = Some pid) (students db))))\<rparr>,
         db))
   \<and> (get_Project db pid = Inr (Some P)
      \<and> (\<forall>s \<in> set (students db). project_id s \<noteq> Some pid) \<longrightarrow>
      app (GET_project_students pid) db =
        (\<lparr>status = 200, body = Some (ProjectObj P (Some []))\<rparr>, db))
   \<and> (- (2 ^ 63) \<le> pid \<and> pid < 2 ^ 63 \<and> pid \<in> Project_id ` set (projects db) \<longrightarrow>
        (\<exists>Q. get_Project db pid = Inr (Some Q)))
   \<and> (- (2 ^ 63) \<le> pid \<and> pid < 2 ^ 63 \<and> pid \<notin> Project_id ` set (projects db) \<longrightarrow>
      app (GET_project_students pid) db =
        (\<lparr>status = 404, body = Some (Detail ''Project not found'')\<rparr>, db))"
proof (intro conjI impI)
  assume a: "get_Project db pid = Inr (Some P)
      \<and> (\<forall>s \<in> set (students db). project_id s = Some pid \<longrightarrow>
            cgpa s \<notin> {Some Infinity, Some Minus_Infinity, Some NaN})"
  then have inr: "in_int64 pid" and sel: "select_Project db pid = Some P"
    by (simp_all add: get_Project_Inr_iff)
  from select_Project_SomeD[OF sel] show pid: "Project_id P = pid" and "P \<in> set (projects db)"
    by simp_all
  have "list_all json_Student (filter (\<lambda>s. project_id s = Some pid) (students db))"
    using a by (simp add: list_all_iff json_Student_iff)
  then show "app (GET_project_students pid) db =
        (\<lparr>status = 200,
          body = Some (ProjectObj P (Some (filter (\<lambda>s. project_id s = Some pid) (students db))))\<rparr>,
         db)"
    using inr sel pid by (simp add: app_GET_project_students)
next
  assume a: "get_Project db pid = Inr (Some P)
      \<and> (\<forall>s \<in> set (students db). project_id s \<noteq> Some pid)"
  then have inr: "in_int64 pid" and sel: "select_Project db pid = Some P"
    by (simp_all add: get_Project_Inr_iff)
  have pid: "Project_id P = pid" using select_Project_SomeD[OF sel] by simp
  have "filter (\<lambda>s. project_id s = Some pid) (students db) = []"
    using a by (simp add: filter_empty_conv)
  then show "app (GET_project_students pid) db =
        (\<lparr>status = 200, body = Some (ProjectObj P (Some []))\<rparr>, db)"
    using inr sel pid by (simp add: app_GET_project_students)
next
  assume a: "- (2 ^ 63) \<le> pid \<and> pid < 2 ^ 63 \<and> pid \<in> Project_id ` set (projects db)"
  then have "in_int64 pid" by (simp add: in_int64_def)
  moreover from a have "select_Project db pid \<noteq> None" by (simp add: select_Project_None_iff)
  ultimately show "\<exists>Q. get_Project db pid = Inr (Some Q)"
    by (auto simp: get_Project_Inr_iff)
next
  assume a: "- (2 ^ 63) \<le> pid \<and> pid < 2 ^ 63 \<and> pid \<notin> Project_id ` set (projects db)"
  then have "in_int64 pid" by (simp add: in_int64_def)
  moreover from a have "select_Project db pid = None" by (simp add: select_Project_None_iff)
  ultimately show "app (GET_project_students pid) db =
        (\<lparr>status = 404, body = Some (Detail ''Project not found'')\<rparr>, db)"
    by (simp add: app_GET_project_students)
qed

theorem project_with_students_witness:
  "get_Project store_idle_project 2 = Inr (Some (Project_of 2 project_beta))
   \<and> filter (\<lambda>s. project_id s = Some 2) (students store_idle_project)
       = [Student_of 1 (student_of_email ''a@x.com'' (Some 2))]
   \<and> cgpa (Student_of 1 (student_of_email ''a@x.com'' (Some 2))) = Some (Finite 3.5)
   \<and> app (GET_project_students 2) store_idle_project =
       (\<lparr>status = 200,
         body = Some (ProjectObj (Project_of 2 project_beta)
                  (Some [Student_of 1 (student_of_email ''a@x.com'' (Some 2))]))\<rparr>,
        store_idle_project)
   \<and> get_Project store_idle_project 1 = Inr (Some (Project_of 1 project_alpha))
   \<and> filter (\<lambda>s. project_id s = Some 1) (students store_idle_project) = []
   \<and> app (GET_project_students 1) store_idle_project =
       (\<lparr>status = 200, body = Some (ProjectObj (Project_of 1 project_alpha) (Some []))\<rparr>,
        store_idle_project)
   \<and> - (2 ^ 63) \<le> (5 :: int) \<and> (5 :: int) < 2 ^ 63
   \<and> 5 \<notin> Project_id ` set (projects store_idle_project)
   \<and> app (GET_project_students 5) store_idle_project =
       (\<lparr>status = 404, body = Some (Detail ''Project not found'')\<rparr>, store_idle_project)"
proof -
  have g2: "get_Project store_idle_project 2 = Inr (Some (Project_of 2 project_beta))"
    by (simp add: get_Project_def select_Project_def in_int64_def example_defs)
  have g1: "get_Project store_idle_project 1 = Inr (Some (Project_of 1 project_alpha))"
    by (simp add: get_Project_def select_Project_def in_int64_def example_defs)
  have empty1: "filter (\<lambda>s. project_id s = Some 1) (students store_idle_project) = []"
    by (simp add: example_defs)
  then have none1: "\<forall>s \<in> set (students store_idle_project). project_id s \<noteq> Some 1"
    by (simp add: filter_empty_conv)
  have r5: "- (2 ^ 63) \<le> (5 :: int) \<and> (5 :: int) < 2 ^ 63"
    by simp
  have out5: "5 \<notin> Project_id ` set (projects store_idle_project)"
    by (simp add: example_defs)
  have f2: "filter (\<lambda>s. project_id s = Some 2) (students store_idle_project)
      = [Student_of 1 (student_of_email ''a@x.com'' (Some 2))]"
    by (simp add: example_defs)
  have c2: "cgpa (Student_of 1 (student_of_email ''a@x.com'' (Some 2))) = Some (Finite 3.5)"
    by (simp add: example_defs)
  have fin2: "\<forall>s \<in> set (students store_idle_project). project_id s = Some 2 \<longrightarrow>
            cgpa s \<notin> {Some Infinity, Some Minus_Infinity, Some NaN}"
    by (simp add: example_defs)
  from project_with_students[of store_idle_project 2 "Project_of 2 project_beta"] g2 fin2
  have "app (GET_project_students 2) store_idle_project =
       (\<lparr>status = 200,
         body = Some (ProjectObj (Project_of 2 project_beta)
                  (Some (filter (\<lambda>s. project_id s = Some 2) (students store_idle_project))))\<rparr>,
        store_idle_project)"
    by blast
  then have r2: "app (GET_project_students 2) store_idle_project =
       (\<lparr>status = 200,
         body = Some (ProjectObj (Project_of 2 project_beta)
                  (Some [Student_of 1 (student_of_email ''a@x.com'' (Some 2))]))\<rparr>,
        store_idle_project)"
    by (simp only: f2)
  from project_with_students[of store_idle_project 1 "Project_of 1 project_alpha"] g1 none1
  have r1: "app (GET_project_students 1) store_idle_project =
       (\<lparr>status = 200, body = Some (ProjectObj (Project_of 1 project_alpha) (Some []))\<rparr>,
        store_idle_project)"
    by blast
  from project_with_students[of store_idle_project 5] r5 out5
  have r404: "app (GET_project_students 5) store_idle_project =
       (\<lparr>status = 404, body = Some (Detail ''Project not found'')\<rparr>, store_idle_project)"
    by blast
  show ?thesis
    by (intro conjI g2 f2 c2 r2 g1 empty1 r1 r5[THEN conjunct1] r5[THEN conjunct2] out5 r404)
qed

text \<open>
  C8. A delete request whose target exists (its id being one the storage can hold),
  and so every delete request that does not end in an error, is answered with
  status 204 and no body, for projects and for students alike. The handler itself
  returns a dict with a confirmation message; the route's declared status 204
  admits no body, so none is sent.
\<close>

theorem delete_answers_204_without_body:
  "(- (2 ^ 63) \<le> pid \<and> pid < 2 ^ 63 \<and> pid \<in> Project_id ` set (projects db) \<longrightarrow>
      fst (app (DELETE_project pid) db) = \<lparr>status = 204, body = None\<rparr>)
   \<and> (- (2 ^ 63) \<le> sid \<and> sid < 2 ^ 63 \<and> sid \<in> Student_id ` set (students db) \<longrightarrow>
      fst (app (DELETE_student sid) db) = \<lparr>status = 204, body = None\<rparr>)
   \<and> (status (fst (app (DELETE_project pid) db)) < 400 \<longrightarrow>
      fst (app (DELETE_project pid) db) = \<lparr>status = 204, body = None\<rparr>)
   \<and> (status (fst (app (DELETE_student sid) db)) < 400 \<longrightarrow>
      fst (app (DELETE_student sid) db) = \<lparr>status = 204, body = None\<rparr>)"
proof -
  have p: "fst (app (DELETE_project pid) db) = \<lparr>status = 204, body = None\<rparr>"
    if "in_int64 pid" "select_Project db pid \<noteq> None"
  proof -
    from that obtain P where "select_Project db pid = Some P" by blast
    with that(1) show ?thesis by (simp add: app_DELETE_project)
  qed
  have s: "fst (app (DELETE_student sid) db) = \<lparr>status = 204, body = None\<rparr>"
    if "in_int64 sid" "select_Student db sid \<noteq> None"
  proof -
    from that obtain S where "select_Student db sid = Some S" by blast
    with that(1) show ?thesis by (simp add: app_DELETE_student)
  qed
  have p': "in_int64 pid \<and> select_Project db pid \<noteq> None"
    if "status (fst (app (DELETE_project pid) db)) < 400"
  proof (cases "in_int64 pid")
    case False
    with that show ?thesis by (simp add: app_DELETE_out)
  next
    case True
    with that show ?thesis
      by (cases "select_Project db pid") (simp_all add: app_DELETE_None)
  qed
  have s': "in_int64 sid \<and> select_Student db sid \<noteq> None"
    if "status (fst (app (DELETE_student sid) db)) < 400"
  proof (cases "in_int64 sid")
    case False
    with that show ?thesis by (simp add: app_DELETE_out)
  next
    case True
    with that show ?thesis
      by (cases "select_Student db sid") (simp_all add: app_DELETE_None)
  qed
  have c1: "- (2 ^ 63) \<le> pid \<and> pid < 2 ^ 63 \<and> pid \<in> Project_id ` set (projects db) \<longrightarrow>
      fst (app (DELETE_project pid) db) = \<lparr>status = 204, body = None\<rparr>"
    using p by (simp add: select_Project_None_iff in_int64_def)
  have c2: "- (2 ^ 63) \<le> sid \<and> sid < 2 ^ 63 \<and> sid \<in> Student_id ` set (students db) \<longrightarrow>
      fst (app (DELETE_student sid) db) = \<lparr>status = 204, body = None\<rparr>"
    using s by (simp add: select_Student_None_iff in_int64_def)
  have c3: "status (fst (app (DELETE_project pid) db)) < 400 \<longrightarrow>
      fst (app (DELETE_project pid) db) = \<lparr>status = 204, body = None\<rparr>"
    using p p' by blast
  have c4: "status (fst (app (DELETE_student sid) db)) < 400 \<longrightarrow>
      fst (app (DELETE_student sid) db) = \<lparr>status = 204, body = None\<rparr>"
    using s s' by blast
  show ?thesis
    by (intro conjI c1 c2 c3 c4)
qed

theorem delete_answers_204_without_body_witness:
  "- (2 ^ 63) \<le> (1 :: int) \<and> (1 :: int) < 2 ^ 63
   \<and> - (2 ^ 63) \<le> (4 :: int) \<and> (4 :: int) < 2 ^ 63
   \<and> 1 \<in> Project_id ` set (projects store_two_members)
   \<and> fst (app (DELETE_project 1) store_two_members) = \<lparr>status = 204, body = None\<rparr>
   \<and> 4 \<in> Student_id ` set (students store_two_members)
   \<and> fst (app (DELETE_student 4) store_two_members) = \<lparr>status = 204, body = None\<rparr>
   \<and> status (fst (app (DELETE_project 2) store_two_members)) < 400
   \<and> status (fst (app (DELETE_student 3) store_two_members)) < 400"
proof -
  have h1: "1 \<in> Project_id ` set (projects store_two_members)"
    by (simp add: example_defs)
  have h2: "4 \<in> Student_id ` set (students store_two_members)"
    by (simp add: example_defs)
  have h3: "status (fst (app (DELETE_project 2) store_two_members)) < 400"
    by (simp add: app_defs example_defs)
  have h4: "status (fst (app (DELETE_student 3) store_two_members)) < 400"
    by (simp add: app_defs example_defs)
  have b1: "- (2 ^ 63) \<le> (1 :: int) \<and> (1 :: int) < 2 ^ 63"
    by simp
  have b4: "- (2 ^ 63) \<le> (4 :: int) \<and> (4 :: int) < 2 ^ 63"
    by simp
  note t = delete_answers_204_without_body[of 1 store_two_members 4]
  from t b1 h1 have r1: "fst (app (DELETE_project 1) store_two_members) = \<lparr>status = 204, body = None\<rparr>"
    by blast
  from t b4 h2 have r2: "fst (app (DELETE_student 4) store_two_members) = \<lparr>status = 204, body = None\<rparr>"
    by blast
  show ?thesis
    by (intro conjI b1[THEN conjunct1] b1[THEN conjunct2] b4[THEN conjunct1]
        b4[THEN conjunct2] h1 r1 h2 r2 h3 h4)
qed

text \<open>
  C9, as stated, fails for an id the storage cannot hold: \<open>2 ^ 63\<close> is the id of no
  stored student, yet updating it is answered 500, not 404: the lookup of the
  student raises before it finds anything.
\<close>

theorem update_student_not_found_first_counterexample:
  "StudentBase_validate (StudentBody_of (student_of_email ''e@x.com'' (Some 7)))
     = Inr (student_of_email ''e@x.com'' (Some 7))
   \<and> 9223372036854775808 \<notin> Student_id ` set (students store_two_members)
   \<and> app (PUT_student 9223372036854775808
             (StudentBody_of (student_of_email ''e@x.com'' (Some 7)))) store_two_members =
       (\<lparr>status = 500, body = Some InternalServerError\<rparr>, store_two_members)
   \<and> status (fst (app (PUT_student 9223372036854775808
             (StudentBody_of (student_of_email ''e@x.com'' (Some 7)))) store_two_members)) \<noteq> 404"
proof -
  have h1: "StudentBase_validate (StudentBody_of (student_of_email ''e@x.com'' (Some 7)))
     = Inr (student_of_email ''e@x.com'' (Some 7))"
    by (simp add: StudentBase_validate_def StudentBody_of_def field_default_def student_of_email_def)
  have h2: "9223372036854775808 \<notin> Student_id ` set (students store_two_members)"
    by (simp add: example_defs)
  have h3: "app (PUT_student 9223372036854775808
             (StudentBody_of (student_of_email ''e@x.com'' (Some 7)))) store_two_members =
       (\<lparr>status = 500, body = Some InternalServerError\<rparr>, store_two_members)"
    by (simp add: app_defs example_defs body_defs)
  have h4: "status (fst (app (PUT_student 9223372036854775808
             (StudentBody_of (student_of_email ''e@x.com'' (Some 7)))) store_two_members)) \<noteq> 404"
    by (simp add: h3)
  show ?thesis
    by (intro conjI h1 h2 h3 h4)
qed

text \<open>
  C9, amended. An update-student request for an id within the signed 64-bit range
  of the storage's integers that no stored student has answers 404 with detail
  \<^verbatim>\<open>Student not found\<close>, whatever the validated payload: also when its \<open>project_id\<close>
  is non-null and references no stored project. The store is unchanged.
\<close>

theorem update_student_not_found_first:
  assumes "StudentBase_validate b = Inr updated"
    and "- (2 ^ 63) \<le> sid \<and> sid < 2 ^ 63"
    and "sid \<notin> Student_id ` set (students db)"
  shows "app (PUT_student sid b) db =
     (\<lparr>status = 404, body = Some (Detail ''Student not found'')\<rparr>, db)"
proof -
  have "in_int64 sid"
    using assms(2) by (simp add: in_int64_def)
  moreover have "select_Student db sid = None"
    using assms(3) by (simp add: select_Student_None_iff)
  ultimately show ?thesis
    by (rule app_PUT_student_None[OF assms(1)])
qed

theorem update_student_not_found_first_witness:
  "StudentBase_validate (StudentBody_of (student_of_email ''e@x.com'' (Some 7)))
     = Inr (student_of_email ''e@x.com'' (Some 7))
   \<and> project_id (student_of_email ''e@x.com'' (Some 7)) = Some 7
   \<and> 7 \<notin> Project_id ` set (projects store_two_members)
   \<and> - (2 ^ 63) \<le> (9 :: int) \<and> (9 :: int) < 2 ^ 63
   \<and> 9 \<notin> Student_id ` set (students store_two_members)
   \<and> app (PUT_student 9 (StudentBody_of (student_of_email ''e@x.com'' (Some 7)))) store_two_members =
       (\<lparr>status = 404, body = Some (Detail ''Student not found'')\<rparr>, store_two_members)"
proof -
  have h1: "StudentBase_validate (StudentBody_of (student_of_email ''e@x.com'' (Some 7)))
     = Inr (student_of_email ''e@x.com'' (Some 7))"
    by (simp add: StudentBase_validate_def StudentBody_of_def field_default_def student_of_email_def)
  have h2: "project_id (student_of_email ''e@x.com'' (Some 7)) = Some 7"
    by (simp add: student_of_email_def)
  have h3: "7 \<notin> Project_id ` set (projects store_two_members)"
    by (simp add: example_defs)
  have h4: "- (2 ^ 63) \<le> (9 :: int) \<and> (9 :: int) < 2 ^ 63"
    by simp
  have h5: "9 \<notin> Student_id ` set (students store_two_members)"
    by (simp add: example_defs)
  note h6 = update_student_not_found_first[OF h1 h4 h5]
  show ?thesis
    by (intro conjI h1 h2 h3 h4[THEN conjunct1] h4[THEN conjunct2] h5 h6)
qed

text \<open>
  C10. The five read routes (list and get of projects and of students, and the
  project with its students) leave the store as it was, whether they answer 200
  or 404.
\<close>

theorem reads_leave_store_unchanged:
  "is_GET req \<Longrightarrow> snd (app req db) = db"
  by (simp add: snd_app is_GET_unchanged)

theorem reads_leave_store_unchanged_witness:
  "is_GET (GET_project 1 :: real request)
   \<and> app (GET_project 1) store_two_members =
       (\<lparr>status = 200, body = Some (ProjectObj (Project_of 1 project_alpha) None)\<rparr>,
        store_two_members)
   \<and> is_GET (GET_student 9 :: real request)
   \<and> status (fst (app (GET_student 9) store_two_members)) = 404
   \<and> snd (app (GET_student 9) store_two_members) = store_two_members
   \<and> is_GET (GET_students :: real request)
   \<and> snd (app GET_students store_two_members) = store_two_members"
proof -
  have g: "select_Project store_two_members 1 = Some (Project_of 1 project_alpha)"
    by (simp add: select_Project_def example_defs)
  have i1: "is_GET (GET_project 1 :: real request)" by simp
  have i2: "is_GET (GET_student 9 :: real request)" by simp
  have i3: "is_GET (GET_students :: real request)" by simp
  have r1: "app (GET_project 1) store_two_members =
       (\<lparr>status = 200, body = Some (ProjectObj (Project_of 1 project_alpha) None)\<rparr>,
        store_two_members)"
    by (simp add: app_GET_project g in_int64_def)
  have r2: "status (fst (app (GET_student 9) store_two_members)) = 404"
    by (simp add: app_defs example_defs)
  note r3 = reads_leave_store_unchanged[OF i2, of store_two_members]
  note r4 = reads_leave_store_unchanged[OF i3, of store_two_members]
  show ?thesis
    by (intro conjI i1 r1 i2 r2 r3 i3 r4)
qed


end
